theory Spec2Isabelle
  imports Complex_Main "HOL-Library.Sublist"
begin

section \<open>JavaScript values the client and the functions handle\<close>

text \<open>
  A string is a list of characters, one per UTF-16 code unit; a character of the model
  is a code unit below 0x100 (ASCII and Latin-1). In that range the white space and line
  terminators that \<^verbatim>\<open>String.prototype.trim\<close> removes are TAB, LF, VT, FF, CR, SPACE and
  the no-break space U+00A0, and \<^verbatim>\<open>toLowerCase\<close> maps A-Z, U+00C0-U+00D6 and
  U+00D8-U+00DE to the letter 0x20 further on and leaves every other character alone.
\<close>

definition js_isWhiteSpace :: "char \<Rightarrow> bool" where
  "js_isWhiteSpace c =
     (c \<in> set [CHR 0x09, CHR 0x0A, CHR 0x0B, CHR 0x0C, CHR 0x0D, CHR 0x20, CHR 0xA0])"

definition js_trim :: "string \<Rightarrow> string" where
  "js_trim s = rev (dropWhile js_isWhiteSpace (rev (dropWhile js_isWhiteSpace s)))"

definition js_lowerChar :: "char \<Rightarrow> char" where
  "js_lowerChar c =
     (let n = (of_char c :: nat)
      in if (65 \<le> n \<and> n \<le> 90) \<or> (192 \<le> n \<and> n \<le> 214) \<or> (216 \<le> n \<and> n \<le> 222)
         then char_of (n + 32) else c)"

definition js_toLowerCase :: "string \<Rightarrow> string" where
  "js_toLowerCase s = map js_lowerChar s"

text \<open>A string is truthy exactly when it is not empty.\<close>

definition js_truthy :: "string \<Rightarrow> bool" where
  "js_truthy s = (s \<noteq> [])"

text \<open>
  What a \<^verbatim>\<open>throw\<close> carries. \<open>Error msg st\<close> is an \<^verbatim>\<open>Error\<close> object with its message
  and its \<^verbatim>\<open>status\<close> property when the code sets one.
\<close>

datatype js_error =
    SecurityError
  | QuotaExceededError
  | SyntaxError
  | TypeError
  | AbortError
  | Error string "nat option"

text \<open>
  \<^verbatim>\<open>error.message\<close>. The text of a browser's own error is the browser's; the model
  writes the error's name for it.
\<close>

fun error_message :: "js_error \<Rightarrow> string" where
  "error_message (Error m st) = m"
| "error_message SecurityError = ''SecurityError''"
| "error_message QuotaExceededError = ''QuotaExceededError''"
| "error_message SyntaxError = ''SyntaxError''"
| "error_message TypeError = ''TypeError''"
| "error_message AbortError = ''AbortError''"

section \<open>The browser's local storage\<close>

text \<open>
  \<^verbatim>\<open>localStorage\<close> belongs to the browser, not to the repository. It is modelled by its
  contract: a map from keys to strings; reading the \<^verbatim>\<open>localStorage\<close> property throws
  a SecurityError when the browser denies access (\<open>denied\<close>), and \<^verbatim>\<open>setItem\<close> throws
  a QuotaExceededError when there is no room left (\<open>full\<close>). Both conditions are the
  environment's and may change between two calls.
\<close>

record local_storage =
  items :: "string \<rightharpoonup> string"
  denied :: bool
  full :: bool

definition ls_getItem :: "local_storage \<Rightarrow> string \<Rightarrow> js_error + string option" where
  "ls_getItem ls k = (if denied ls then Inl SecurityError else Inr (items ls k))"

definition ls_setItem :: "local_storage \<Rightarrow> string \<Rightarrow> string \<Rightarrow> js_error + local_storage" where
  "ls_setItem ls k v =
     (if denied ls then Inl SecurityError
      else if full ls then Inl QuotaExceededError
      else Inr (ls\<lparr>items := (items ls)(k \<mapsto> v)\<rparr>))"

definition ls_removeItem :: "local_storage \<Rightarrow> string \<Rightarrow> js_error + local_storage" where
  "ls_removeItem ls k =
     (if denied ls then Inl SecurityError else Inr (ls\<lparr>items := (items ls)(k := None)\<rparr>))"

definition ls_clear :: "local_storage \<Rightarrow> js_error + local_storage" where
  "ls_clear ls = (if denied ls then Inl SecurityError else Inr (ls\<lparr>items := Map.empty\<rparr>))"

section \<open>StorageService (static/js/services/storage.js)\<close>

definition StorageKeys_API_KEY :: string where
  "StorageKeys_API_KEY = ''vcet_groq_api_key''"

definition StorageKeys_THEME :: string where
  "StorageKeys_THEME = ''theme''"

definition StorageKeys_CHAT_HISTORY :: string where
  "StorageKeys_CHAT_HISTORY = ''chatHistory''"

record storage_service =
  isAvailable :: bool

text \<open>
  \<^verbatim>\<open>checkAvailability\<close> writes and removes a test key inside a \<^verbatim>\<open>try\<close>; the constructor
  stores its answer once, in \<open>isAvailable\<close>.
\<close>

definition checkAvailability :: "local_storage \<Rightarrow> bool \<times> local_storage" where
  "checkAvailability ls =
     (case ls_setItem ls ''__storage_test__'' ''__storage_test__'' of
        Inl e \<Rightarrow> (False, ls)
      | Inr ls1 \<Rightarrow>
          (case ls_removeItem ls1 ''__storage_test__'' of
             Inl e \<Rightarrow> (False, ls1)
           | Inr ls2 \<Rightarrow> (True, ls2)))"

definition StorageService_new :: "local_storage \<Rightarrow> storage_service \<times> local_storage" where
  "StorageService_new ls =
     (case checkAvailability ls of (ok, ls') \<Rightarrow> (\<lparr>isAvailable = ok\<rparr>, ls'))"

text \<open>
  Every method returns what the call evaluates to, \<open>Inl e\<close> when it throws \<open>e\<close>, and the
  store after the call. \<^verbatim>\<open>JSON.stringify\<close> and \<^verbatim>\<open>JSON.parse\<close> are parameters: both may
  throw.
\<close>

definition StorageService_set ::
  "('v \<Rightarrow> js_error + string) \<Rightarrow> storage_service \<Rightarrow> local_storage \<Rightarrow> string \<Rightarrow> 'v
     \<Rightarrow> (js_error + bool) \<times> local_storage" where
  "StorageService_set stringify svc ls key v =
     (if \<not> isAvailable svc then (Inr False, ls)
      else
        (case stringify v of
           Inl e \<Rightarrow> (Inr False, ls)
         | Inr serialized \<Rightarrow>
             (case ls_setItem ls key serialized of
                Inl e \<Rightarrow> (Inr False, ls)
              | Inr ls' \<Rightarrow> (Inr True, ls'))))"

definition StorageService_get ::
  "(string \<Rightarrow> js_error + 'v) \<Rightarrow> storage_service \<Rightarrow> local_storage \<Rightarrow> string \<Rightarrow> 'v
     \<Rightarrow> js_error + 'v" where
  "StorageService_get parse svc ls key defaultValue =
     (if \<not> isAvailable svc then Inr defaultValue
      else
        (case ls_getItem ls key of
           Inl e \<Rightarrow> Inr defaultValue
         | Inr None \<Rightarrow> Inr defaultValue
         | Inr (Some item) \<Rightarrow>
             (case parse item of
                Inl e \<Rightarrow> Inr defaultValue
              | Inr v \<Rightarrow> Inr v)))"

text \<open>\<^verbatim>\<open>getRaw\<close> and \<^verbatim>\<open>has\<close> call \<^verbatim>\<open>localStorage.getItem\<close> outside any \<^verbatim>\<open>try\<close>.\<close>

definition StorageService_getRaw ::
  "storage_service \<Rightarrow> local_storage \<Rightarrow> string \<Rightarrow> string \<Rightarrow> js_error + string" where
  "StorageService_getRaw svc ls key defaultValue =
     (if \<not> isAvailable svc then Inr defaultValue
      else
        (case ls_getItem ls key of
           Inl e \<Rightarrow> Inl e
         | Inr None \<Rightarrow> Inr defaultValue
         | Inr (Some item) \<Rightarrow> Inr (if js_truthy item then item else defaultValue)))"

definition StorageService_setRaw ::
  "storage_service \<Rightarrow> local_storage \<Rightarrow> string \<Rightarrow> string \<Rightarrow> (js_error + bool) \<times> local_storage" where
  "StorageService_setRaw svc ls key v =
     (if \<not> isAvailable svc then (Inr False, ls)
      else
        (case ls_setItem ls key v of
           Inl e \<Rightarrow> (Inr False, ls)
         | Inr ls' \<Rightarrow> (Inr True, ls')))"

definition StorageService_remove ::
  "storage_service \<Rightarrow> local_storage \<Rightarrow> string \<Rightarrow> (js_error + bool) \<times> local_storage" where
  "StorageService_remove svc ls key =
     (if \<not> isAvailable svc then (Inr False, ls)
      else
        (case ls_removeItem ls key of
           Inl e \<Rightarrow> (Inr False, ls)
         | Inr ls' \<Rightarrow> (Inr True, ls')))"

definition StorageService_has :: "storage_service \<Rightarrow> local_storage \<Rightarrow> string \<Rightarrow> js_error + bool" where
  "StorageService_has svc ls key =
     (if \<not> isAvailable svc then Inr False
      else
        (case ls_getItem ls key of
           Inl e \<Rightarrow> Inl e
         | Inr item \<Rightarrow> Inr (item \<noteq> None)))"

definition StorageService_clear ::
  "storage_service \<Rightarrow> local_storage \<Rightarrow> (js_error + bool) \<times> local_storage" where
  "StorageService_clear svc ls =
     (if \<not> isAvailable svc then (Inr False, ls)
      else
        (case ls_clear ls of
           Inl e \<Rightarrow> (Inr False, ls)
         | Inr ls' \<Rightarrow> (Inr True, ls')))"

text \<open>
  \<^verbatim>\<open>getApiKey\<close> returns the stored key or \<^verbatim>\<open>null\<close> (\<open>None\<close>); \<^verbatim>\<open>setApiKey\<close> stores a
  truthy key and removes the entry otherwise. \<^verbatim>\<open>setApiKey\<close> returns nothing, so its
  value is \<open>()\<close> unless it throws.
\<close>

definition StorageService_getApiKey ::
  "storage_service \<Rightarrow> local_storage \<Rightarrow> js_error + string option" where
  "StorageService_getApiKey svc ls =
     (case StorageService_getRaw svc ls StorageKeys_API_KEY [] of
        Inl e \<Rightarrow> Inl e
      | Inr key \<Rightarrow> Inr (if js_truthy key then Some key else None))"

definition StorageService_setApiKey ::
  "storage_service \<Rightarrow> local_storage \<Rightarrow> string \<Rightarrow> (js_error + unit) \<times> local_storage" where
  "StorageService_setApiKey svc ls key =
     (if js_truthy key then
        (case StorageService_setRaw svc ls StorageKeys_API_KEY key of
           (Inl e, ls') \<Rightarrow> (Inl e, ls')
         | (Inr b, ls') \<Rightarrow> (Inr (), ls'))
      else
        (case StorageService_remove svc ls StorageKeys_API_KEY of
           (Inl e, ls') \<Rightarrow> (Inl e, ls')
         | (Inr b, ls') \<Rightarrow> (Inr (), ls')))"

section \<open>The chat client (main script of the page)\<close>

text \<open>
  The script keeps its state in global variables (\<^verbatim>\<open>chatHistory\<close>, \<^verbatim>\<open>isProcessing\<close>,
  \<^verbatim>\<open>isRateLimited\<close>, \<^verbatim>\<open>consecutiveFailures\<close>), in \<^verbatim>\<open>localStorage\<close> and in two input
  elements it reads back. Everything else it does is an effect on the outside: a network
  call or an update of the page. The model records those in a trace, oldest first, so
  that "no network call" is a statement about the trace.
\<close>

datatype sender = User | Bot

text \<open>The \<^verbatim>\<open>options\<close> object of a message: empty, a bot answer's, or an error's.\<close>

datatype msg_options =
    NoOptions
  | AnswerOptions bool rat
  | ErrorOptions

record chat_entry =
  content :: string
  sender :: sender
  timestamp :: string
  options :: msg_options

text \<open>
  The JSON body of an answer of \<^verbatim>\<open>/api/query\<close>, a JSON object, with the fields the
  script reads.
\<close>

record query_data =
  response :: string
  cached :: bool
  response_time :: rat
  message :: "string option"
  remaining_requests :: "rat option"

text \<open>
  What one \<^verbatim>\<open>fetch\<close> does: it rejects (no answer from the network), or it resolves with
  a status and a body; \<open>None\<close> is a body that \<^verbatim>\<open>response.json()\<close> cannot parse. The
  model describes calls that settle: while a \<^verbatim>\<open>fetch\<close> stays pending, the call of
  \<^verbatim>\<open>sendQuery\<close> has recorded its request and does nothing more.
\<close>

datatype fetch_result =
    FetchRejected js_error
  | FetchResponse nat "query_data option"

datatype effect =
    Fetch string "(string \<times> string) list" string
  | ShowToast string string
  | OpenSettingsModal
  | CloseSettingsModalLater
  | ShowApiKeyValidation string string
  | ShowRateLimitPopup
  | ShowRateLimitBanner
  | DismissRateLimitPopup
  | HideRateLimitBanner
  | DisableMessageInput
  | EnableMessageInput
  | UpdateCharCount nat bool
  | UpdateApiUsageDisplay rat
  | HideWelcomeScreen
  | ShowWelcomeScreen
  | RenderMessage string sender msg_options
  | ClearMessages
  | ShowTypingIndicator
  | HideTypingIndicator
  | AutoResizeTextarea
  | FocusMessageInput
  | SetSendBtnDisabled bool
  | CloseSidebar
  | ConsoleError

record app_state =
  chatHistory :: "chat_entry list"
  isProcessing :: bool
  isRateLimited :: bool
  consecutiveFailures :: nat
  localStorage :: local_storage
  messageInput_value :: string
  apiKeyInput_value :: "string option"
  effects :: "effect list"

definition MAX_CONSECUTIVE_FAILURES :: nat where
  "MAX_CONSECUTIVE_FAILURES = 3"

definition endpoints_query :: string where
  "endpoints_query = ''/api/query''"

definition storageKeys_apiKey :: string where
  "storageKeys_apiKey = ''vcet_groq_api_key''"

definition emit :: "effect list \<Rightarrow> app_state \<Rightarrow> app_state" where
  "emit es s = s\<lparr>effects := effects s @ es\<rparr>"

fun isFetch :: "effect \<Rightarrow> bool" where
  "isFetch (Fetch url headers body) = True"
| "isFetch e = False"

definition netCalls :: "app_state \<Rightarrow> nat" where
  "netCalls s = length (filter isFetch (effects s))"

definition response_ok :: "nat \<Rightarrow> bool" where
  "response_ok status = (200 \<le> status \<and> status \<le> 299)"

definition updateCharCount :: "app_state \<Rightarrow> app_state" where
  "updateCharCount s =
     emit [UpdateCharCount (length (messageInput_value s))
             (length (messageInput_value s) = 0 \<or> isProcessing s)] s"

definition disableMessageInput :: "app_state \<Rightarrow> app_state" where
  "disableMessageInput s = emit [DisableMessageInput] s"

definition enableMessageInput :: "app_state \<Rightarrow> app_state" where
  "enableMessageInput s = updateCharCount (emit [EnableMessageInput] s)"

definition handleRateLimitExceeded :: "app_state \<Rightarrow> app_state" where
  "handleRateLimitExceeded s =
     disableMessageInput (emit [ShowRateLimitPopup, ShowRateLimitBanner] (s\<lparr>isRateLimited := True\<rparr>))"

definition dismissRateLimitPopup :: "app_state \<Rightarrow> app_state" where
  "dismissRateLimitPopup s = emit [DismissRateLimitPopup] s"

definition resetRateLimitState :: "app_state \<Rightarrow> app_state" where
  "resetRateLimitState s =
     enableMessageInput
       (emit [HideRateLimitBanner]
          (dismissRateLimitPopup (s\<lparr>isRateLimited := False, consecutiveFailures := 0\<rparr>)))"

definition showToast :: "string \<Rightarrow> string \<Rightarrow> app_state \<Rightarrow> app_state" where
  "showToast msg type s = emit [ShowToast msg type] s"

text \<open>
  \<^verbatim>\<open>openSettingsModal\<close> reads the saved key with no \<^verbatim>\<open>try\<close>: when the read throws, the
  handler stops after opening the modal.
\<close>

definition openSettingsModal :: "app_state \<Rightarrow> app_state" where
  "openSettingsModal s =
     (let s1 = emit [OpenSettingsModal] s in
      case ls_getItem (localStorage s1) storageKeys_apiKey of
        Inl e \<Rightarrow> s1
      | Inr None \<Rightarrow> s1
      | Inr (Some savedKey) \<Rightarrow>
          (if js_truthy savedKey \<and> apiKeyInput_value s1 \<noteq> None
           then s1\<lparr>apiKeyInput_value := Some savedKey\<rparr> else s1))"

text \<open>
  \<^verbatim>\<open>sendQuery\<close>: the saved key is read first (outside the script's control this read may
  throw), then the request is sent; the body is parsed before the status is looked at.
\<close>

definition sendQuery :: "fetch_result \<Rightarrow> string \<Rightarrow> app_state \<Rightarrow> (js_error + query_data) \<times> app_state" where
  "sendQuery net query s =
     (case ls_getItem (localStorage s) storageKeys_apiKey of
        Inl e \<Rightarrow> (Inl e, s)
      | Inr savedApiKey \<Rightarrow>
          (let headers =
                 [(''Content-Type'', ''application/json'')] @
                 (case savedApiKey of
                    None \<Rightarrow> []
                  | Some k \<Rightarrow> if js_truthy k then [(''X-Groq-Api-Key'', k)] else []);
               s1 = emit [Fetch endpoints_query headers query] s
           in
             case net of
               FetchRejected e \<Rightarrow> (Inl e, s1)
             | FetchResponse status None \<Rightarrow> (Inl SyntaxError, s1)
             | FetchResponse status (Some data) \<Rightarrow>
                 (if status = 429 then
                    (Inl (Error ''Rate limit exceeded'' None), handleRateLimitExceeded s1)
                  else if \<not> response_ok status then
                    (let s2 = s1\<lparr>consecutiveFailures := consecutiveFailures s1 + 1\<rparr>;
                         s3 = (if consecutiveFailures s2 \<ge> MAX_CONSECUTIVE_FAILURES
                               then handleRateLimitExceeded s2 else s2)
                     in (Inl (Error (case message data of
                                       None \<Rightarrow> ''Failed to get response''
                                     | Some m \<Rightarrow> if js_truthy m then m
                                                else ''Failed to get response'') None), s3))
                  else
                    (let s2 = s1\<lparr>consecutiveFailures := 0\<rparr>;
                         s3 = (case remaining_requests data of
                                 None \<Rightarrow> s2
                               | Some r \<Rightarrow> emit [UpdateApiUsageDisplay r] s2)
                     in (Inr data, s3)))))"

definition addMessage :: "string \<Rightarrow> string \<Rightarrow> sender \<Rightarrow> msg_options \<Rightarrow> app_state \<Rightarrow> app_state" where
  "addMessage now c sndr opts s =
     (emit [RenderMessage c sndr opts] s)
       \<lparr>chatHistory := chatHistory s @
          [\<lparr>content = c, sender = sndr, timestamp = now, options = opts\<rparr>]\<rparr>"

text \<open>
  \<^verbatim>\<open>Array.prototype.slice(start)\<close>: a negative start counts from the end, and the start is
  clamped to the array.
\<close>

definition js_slice :: "int \<Rightarrow> 'a list \<Rightarrow> 'a list" where
  "js_slice start xs =
     (let len = int (length xs);
          k = (if start < 0 then max (len + start) 0 else min start len)
      in drop (nat k) xs)"

text \<open>
  \<^verbatim>\<open>saveChatHistory\<close> writes the last 50 entries under \<^verbatim>\<open>chatHistory\<close>; a failure of
  \<^verbatim>\<open>JSON.stringify\<close> or of the write is caught and logged.
\<close>

definition saveChatHistory :: "(chat_entry list \<Rightarrow> js_error + string) \<Rightarrow> app_state \<Rightarrow> app_state" where
  "saveChatHistory stringify s =
     (case stringify (js_slice (- 50) (chatHistory s)) of
        Inl e \<Rightarrow> emit [ConsoleError] s
      | Inr text \<Rightarrow>
          (case ls_setItem (localStorage s) ''chatHistory'' text of
             Inl e \<Rightarrow> emit [ConsoleError] s
           | Inr ls' \<Rightarrow> s\<lparr>localStorage := ls'\<rparr>))"

text \<open>
  One run of \<^verbatim>\<open>sendMessage\<close>, from the click to the end of its \<^verbatim>\<open>finally\<close> block, given
  what the network answers and the two clock readings of \<^verbatim>\<open>addMessage\<close>.
\<close>

record send_env =
  net :: fetch_result
  userTime :: string
  botTime :: string

definition sendMessage ::
  "(chat_entry list \<Rightarrow> js_error + string) \<Rightarrow> send_env \<Rightarrow> app_state \<Rightarrow> app_state" where
  "sendMessage stringify env s =
     (let msg = js_trim (messageInput_value s) in
      if \<not> js_truthy msg \<or> isProcessing s then s
      else if isRateLimited s then
        openSettingsModal
          (showToast
             ''Cannot send message - API rate limit exceeded. Please add your API key in Settings.''
             ''error'' s)
      else
        (let s1 = emit [SetSendBtnDisabled True, HideWelcomeScreen] (s\<lparr>isProcessing := True\<rparr>);
             s2 = addMessage (userTime env) msg User NoOptions s1;
             s3 = emit [AutoResizeTextarea, ShowTypingIndicator]
                    (updateCharCount (s2\<lparr>messageInput_value := []\<rparr>));
             s5 = (case sendQuery (net env) msg s3 of
                     (Inr d, s4) \<Rightarrow>
                       saveChatHistory stringify
                         (addMessage (botTime env) (response d) Bot
                            (AnswerOptions (cached d) (response_time d))
                            (emit [HideTypingIndicator] s4))
                   | (Inl e, s4) \<Rightarrow>
                       showToast
                         (if js_truthy (error_message e) then error_message e
                          else ''Failed to get response'')
                         ''error''
                         (addMessage (botTime env)
                            ''I apologize, but I encountered an error. Please try again.'' Bot
                            ErrorOptions
                            (emit [HideTypingIndicator] s4)))
         in emit [SetSendBtnDisabled False, FocusMessageInput] (s5\<lparr>isProcessing := False\<rparr>)))"

text \<open>
  \<^verbatim>\<open>saveApiKey\<close>: the key typed into the settings is trimmed and must start with
  \<^verbatim>\<open>gsk_\<close>; only after the write to \<^verbatim>\<open>localStorage\<close> succeeded is the rate-limit state
  reset.
\<close>

definition saveApiKey :: "app_state \<Rightarrow> app_state" where
  "saveApiKey s =
     (case apiKeyInput_value s of
        None \<Rightarrow> s
      | Some v \<Rightarrow>
          (let apiKey = js_trim v in
           if \<not> js_truthy apiKey then
             emit [ShowApiKeyValidation ''invalid'' ''Please enter an API key''] s
           else if take 4 apiKey \<noteq> ''gsk_'' then
             emit [ShowApiKeyValidation ''invalid''
                     (''Invalid API key format. Should start with '' @
                        [CHR 0x22] @ ''gsk_'' @ [CHR 0x22])] s
           else
             (case ls_setItem (localStorage s) storageKeys_apiKey apiKey of
                Inl e \<Rightarrow>
                  emit [ConsoleError, ShowApiKeyValidation ''invalid'' ''Failed to save API key''] s
              | Inr ls' \<Rightarrow>
                  emit [CloseSettingsModalLater]
                    (resetRateLimitState
                       (showToast ''API key saved! Rate limit has been reset.'' ''success''
                          (emit [ShowApiKeyValidation ''valid'' ''API key saved successfully'']
                             (s\<lparr>localStorage := ls'\<rparr>)))))))"

text \<open>
  \<^verbatim>\<open>clearApiKey\<close> and \<^verbatim>\<open>clearChat\<close> ask for confirmation first (\<open>confirmed\<close> is the
  user's answer); \<^verbatim>\<open>clearChat\<close> and \<^verbatim>\<open>handleQuickAction\<close> close the sidebar on a
  narrow window (\<open>narrow\<close>). A \<^verbatim>\<open>removeItem\<close> that throws ends the handler.
\<close>

definition clearApiKey :: "bool \<Rightarrow> app_state \<Rightarrow> app_state" where
  "clearApiKey confirmed s =
     (if \<not> confirmed then s
      else
        (case ls_removeItem (localStorage s) storageKeys_apiKey of
           Inl e \<Rightarrow> s
         | Inr ls' \<Rightarrow>
             showToast ''API key cleared'' ''success''
               (emit [ShowApiKeyValidation [] []]
                  (s\<lparr>localStorage := ls',
                     apiKeyInput_value :=
                       (case apiKeyInput_value s of None \<Rightarrow> None | Some v \<Rightarrow> Some [])\<rparr>))))"

definition clearChat :: "bool \<Rightarrow> bool \<Rightarrow> app_state \<Rightarrow> app_state" where
  "clearChat confirmed narrow s =
     (if \<not> confirmed then s
      else
        (let s1 = emit [ClearMessages, ShowWelcomeScreen] (s\<lparr>chatHistory := []\<rparr>) in
         case ls_removeItem (localStorage s1) ''chatHistory'' of
           Inl e \<Rightarrow> s1
         | Inr ls' \<Rightarrow>
             emit (if narrow then [CloseSidebar] else [])
               (showToast ''Chat cleared successfully!'' ''success'' (s1\<lparr>localStorage := ls'\<rparr>))))"

definition quickActionQueries :: "(string \<times> string) list" where
  "quickActionQueries =
     [(''about'', ''Tell me about Velammal College of Engineering and Technology''),
      (''courses'', ''What courses are offered at VCET?''),
      (''admissions'', ''What is the admission process at VCET?''),
      (''placements'', ''Tell me about placements at VCET''),
      (''infrastructure'', ''What infrastructure facilities are available at VCET?''),
      (''contact'', ''How can I contact VCET?'')]"

definition handleQuickAction :: "bool \<Rightarrow> string \<Rightarrow> app_state \<Rightarrow> app_state" where
  "handleQuickAction narrow action s =
     (case map_of quickActionQueries action of
        None \<Rightarrow> s
      | Some q \<Rightarrow>
          emit ([SetSendBtnDisabled False] @ (if narrow then [CloseSidebar] else []))
            (updateCharCount (emit [FocusMessageInput] (s\<lparr>messageInput_value := q\<rparr>))))"

text \<open>
  What can happen to the page between two moments: the user types, clicks a control that
  is wired to one of the handlers above, or a call of \<^verbatim>\<open>sendQuery\<close> completes.
\<close>

datatype action =
    TypeMessage string
  | TypeApiKey string
  | ClickSend send_env
  | CallSendQuery fetch_result string
  | ClickSaveApiKey
  | ClickClearApiKey bool
  | ClickClearChat bool bool
  | ClickQuickAction bool string
  | ClickOpenSettings
  | ClickDismissRateLimitPopup
  | CallResetRateLimitState

fun step :: "(chat_entry list \<Rightarrow> js_error + string) \<Rightarrow> action \<Rightarrow> app_state \<Rightarrow> app_state" where
  "step stringify (TypeMessage v) s =
     emit [AutoResizeTextarea] (updateCharCount (s\<lparr>messageInput_value := v\<rparr>))"
| "step stringify (TypeApiKey v) s =
     s\<lparr>apiKeyInput_value := (case apiKeyInput_value s of None \<Rightarrow> None | Some old \<Rightarrow> Some v)\<rparr>"
| "step stringify (ClickSend env) s = sendMessage stringify env s"
| "step stringify (CallSendQuery r q) s = snd (sendQuery r q s)"
| "step stringify ClickSaveApiKey s = saveApiKey s"
| "step stringify (ClickClearApiKey confirmed) s = clearApiKey confirmed s"
| "step stringify (ClickClearChat confirmed narrow) s = clearChat confirmed narrow s"
| "step stringify (ClickQuickAction narrow a) s = handleQuickAction narrow a s"
| "step stringify ClickOpenSettings s = openSettingsModal s"
| "step stringify ClickDismissRateLimitPopup s = dismissRateLimitPopup s"
| "step stringify CallResetRateLimitState s = resetRateLimitState s"

text \<open>A run of consecutive calls of \<^verbatim>\<open>sendQuery\<close>, each with its answer and its query.\<close>

fun sendQueries :: "(fetch_result \<times> string) list \<Rightarrow> app_state \<Rightarrow> app_state" where
  "sendQueries [] s = s"
| "sendQueries ((r, q) # rs) s = sendQueries rs (snd (sendQuery r q s))"

text \<open>The state of a freshly loaded page over a given store.\<close>

definition initialState :: "local_storage \<Rightarrow> app_state" where
  "initialState ls =
     \<lparr>chatHistory = [], isProcessing = False, isRateLimited = False, consecutiveFailures = 0,
      localStorage = ls, messageInput_value = [], apiKeyInput_value = Some [], effects = []\<rparr>"

definition emptyStore :: local_storage where
  "emptyStore = \<lparr>items = Map.empty, denied = False, full = False\<rparr>"

text \<open>
  An answer of the server that \<^verbatim>\<open>sendQuery\<close> counts as a failure: a status outside
  200-299 with a body that parses as JSON.
\<close>

definition httpFailure :: "fetch_result \<Rightarrow> bool" where
  "httpFailure r = (case r of FetchResponse status (Some d) \<Rightarrow> \<not> response_ok status | _ \<Rightarrow> False)"

text \<open>
  Concrete inputs: the answer of the spec's scenario, and a stand-in for
  \<^verbatim>\<open>JSON.stringify\<close> on the chat history.
\<close>

definition sampleStringify :: "chat_entry list \<Rightarrow> js_error + string" where
  "sampleStringify h = Inr (concat (map content h))"

definition sampleAnswer :: query_data where
  "sampleAnswer = \<lparr>response = ''VCET is...'', cached = False, response_time = 6 / 5,
     message = None, remaining_requests = None\<rparr>"

text \<open>An answer of the network that is no answer: \<^verbatim>\<open>fetch\<close> rejects.\<close>

fun fetchRejected :: "fetch_result \<Rightarrow> bool" where
  "fetchRejected (FetchRejected e) = True"
| "fetchRejected (FetchResponse status b) = False"

text \<open>
  An answer with a status outside 200-299 other than 429, with a body that parses as JSON.
\<close>

definition countedFailure :: "fetch_result \<Rightarrow> bool" where
  "countedFailure r =
     (case r of
        FetchResponse status (Some d) \<Rightarrow> \<not> response_ok status \<and> status \<noteq> 429
      | _ \<Rightarrow> False)"

text \<open>
  The network calls in the trace, in order, and the headers \<^verbatim>\<open>sendQuery\<close> builds from
  the store.
\<close>

definition fetches :: "app_state \<Rightarrow> effect list" where
  "fetches s = filter isFetch (effects s)"

definition queryHeaders :: "local_storage \<Rightarrow> (string \<times> string) list" where
  "queryHeaders ls =
     [(''Content-Type'', ''application/json'')] @
     (case items ls storageKeys_apiKey of
        None \<Rightarrow> []
      | Some k \<Rightarrow> if js_truthy k then [(''X-Groq-Api-Key'', k)] else [])"

section \<open>The loading sequence of the page (startLoadingProcess)\<close>

text \<open>
  Time is a clock in milliseconds that starts at 0 when \<^verbatim>\<open>startLoadingProcess\<close> sets
  \<^verbatim>\<open>loadingStartTime\<close>. The backend is the environment. \<^verbatim>\<open>checkHealth\<close> awaits a
  \<^verbatim>\<open>fetch\<close> that has no timer of its own, so its \<open>i\<close>-th health check (check 0 is the
  first one, check \<open>k\<close> the \<open>k\<close>-th poll) either never settles (\<open>Stalls\<close>) or gives
  its answer after some milliseconds (\<open>Answers\<close>). \<^verbatim>\<open>sleep(ms)\<close> takes \<open>ms\<close>
  milliseconds, and a timer that fires late counts towards the time of the check that
  follows. \<^verbatim>\<open>checkHealth\<close> catches its own errors: a failed check is \<open>HealthFailed\<close>,
  whose \<^verbatim>\<open>ragInitialized\<close> is undefined, hence falsy. \<^verbatim>\<open>loadSuggestions\<close> awaits a
  \<^verbatim>\<open>fetch\<close> too: \<open>suggestionsSettle\<close> says whether it ever returns. The timer that
  refreshes the elapsed-time display is left out.
\<close>

definition LOADING_WARNING_TIME :: nat where
  "LOADING_WARNING_TIME = 5 * 60 * 1000"

definition LOADING_TIMEOUT_TIME :: nat where
  "LOADING_TIMEOUT_TIME = 30 * 60 * 1000"

definition maxAttempts :: nat where
  "maxAttempts = 60"

datatype health = HealthFailed | HealthOk bool

fun health_success :: "health \<Rightarrow> bool" where
  "health_success HealthFailed = False"
| "health_success (HealthOk r) = True"

fun health_ragInitialized :: "health \<Rightarrow> bool" where
  "health_ragInitialized HealthFailed = False"
| "health_ragInitialized (HealthOk r) = r"

datatype health_call = Stalls | Answers health nat

text \<open>What the sequence does to the page and the network, in order.\<close>

datatype loading_event =
    Status string string
  | Progress rat
  | Sleep nat
  | HealthCheck
  | ShowLoadingWarning
  | ShowTimeoutPopup
  | ShowLoadingRetryButton
  | LoadSuggestions
  | HideLoadingOverlay

text \<open>
  The polling loop. Its condition reads the first health result (\<open>ragInit\<close>), which the
  loop never updates; a poll that reports readiness leaves the loop by \<^verbatim>\<open>break\<close>, the
  hard timeout leaves the whole function by \<^verbatim>\<open>return\<close>, and a poll that never settles
  leaves the function pending at its \<^verbatim>\<open>await\<close>. The progress shown is
  \<^verbatim>\<open>Math.min(30 + (attempts / maxAttempts * 40), 70)\<close>, a rational number here. The
  result is how the loop was left, the attempts counted, the last reading of the clock
  and the events so far.
\<close>

datatype loop_exit = LoopDone | LoopTimedOut | LoopPending

function pollLoop ::
  "(nat \<Rightarrow> health_call) \<Rightarrow> bool \<Rightarrow> nat \<Rightarrow> nat \<Rightarrow> loading_event list
     \<Rightarrow> loop_exit \<times> nat \<times> nat \<times> loading_event list" where
  "pollLoop backend ragInit attempts elapsed tr =
     (if \<not> ragInit \<and> attempts < maxAttempts then
        (let tr1 = tr @ [Sleep 2000, HealthCheck]
         in case backend (Suc attempts) of
              Stalls \<Rightarrow> (LoopPending, attempts, elapsed + 2000, tr1)
            | Answers pollResult lat \<Rightarrow>
                (let now = elapsed + 2000 + lat
                 in if health_ragInitialized pollResult then (LoopDone, attempts, now, tr1)
                    else
                      (let attempts' = attempts + 1;
                           tr2 = tr1 @ (if now \<ge> LOADING_WARNING_TIME
                                        then [ShowLoadingWarning] else [])
                       in if now \<ge> LOADING_TIMEOUT_TIME
                          then (LoopTimedOut, attempts', now, tr2 @ [ShowTimeoutPopup])
                          else pollLoop backend ragInit attempts' now
                                 (tr2 @ [Progress (min (30 + of_nat attempts' /
                                                          of_nat maxAttempts * 40) 70)]))))
      else (LoopDone, attempts, elapsed, tr))"
  by pat_completeness auto
termination
  by (relation "measure (\<lambda>(backend, ragInit, attempts, elapsed, tr). maxAttempts - attempts)") auto

text \<open>
  How the sequence ends: with the retry button (the first check failed), with the timeout
  popup, with the ready step completed, or pending for ever at a health check that never
  settles. After the ready step the overlay is hidden only once \<^verbatim>\<open>loadSuggestions\<close> has
  returned.
\<close>

datatype loading_end = EndError | EndTimedOut | EndReady | EndPending

record loading_result =
  ending :: loading_end
  attemptsMade :: nat
  elapsedMs :: nat
  events :: "loading_event list"

definition startLoadingProcess :: "(nat \<Rightarrow> health_call) \<Rightarrow> bool \<Rightarrow> loading_result" where
  "startLoadingProcess backend suggestionsSettle =
     (let tr0 = [Status ''server'' ''active'', Progress 10, HealthCheck]
      in case backend 0 of
           Stalls \<Rightarrow> \<lparr>ending = EndPending, attemptsMade = 0, elapsedMs = 0, events = tr0\<rparr>
         | Answers healthResult now \<Rightarrow>
             if \<not> health_success healthResult then
               \<lparr>ending = EndError, attemptsMade = 0, elapsedMs = now,
                events = tr0 @ [Status ''server'' ''error'', ShowLoadingRetryButton]\<rparr>
             else
               (case pollLoop backend (health_ragInitialized healthResult) 0 now
                       (tr0 @ [Status ''server'' ''completed'', Progress 30,
                               Status ''model'' ''active''])
                of
                  (LoopPending, attempts, t, tr) \<Rightarrow>
                    \<lparr>ending = EndPending, attemptsMade = attempts, elapsedMs = t, events = tr\<rparr>
                | (LoopTimedOut, attempts, t, tr) \<Rightarrow>
                    \<lparr>ending = EndTimedOut, attemptsMade = attempts, elapsedMs = t, events = tr\<rparr>
                | (LoopDone, attempts, t, tr) \<Rightarrow>
                    \<lparr>ending = EndReady, attemptsMade = attempts, elapsedMs = t,
                     events = tr @
                       [Status ''model'' ''completed'', Progress 70,
                        Status ''vectorStore'' ''active'', Sleep 500,
                        Status ''vectorStore'' ''completed'', Progress 90,
                        Status ''ready'' ''active'', Sleep 300,
                        Status ''ready'' ''completed'', Progress 100,
                        LoadSuggestions] @
                       (if suggestionsSettle then [Sleep 500, HideLoadingOverlay] else [])\<rparr>))"

text \<open>Counting health checks, 2-second sleeps and timeout popups in a trace.\<close>

definition polls :: "loading_event list \<Rightarrow> nat" where
  "polls tr = length (filter (\<lambda>e. e = HealthCheck) tr)"

definition pollSleeps :: "loading_event list \<Rightarrow> nat" where
  "pollSleeps tr = length (filter (\<lambda>e. e = Sleep 2000) tr)"

definition timeouts :: "loading_event list \<Rightarrow> nat" where
  "timeouts tr = length (filter (\<lambda>e. e = ShowTimeoutPopup) tr)"

text \<open>A backend that answers every health check at once, never ready.\<close>

definition promptBackend :: "nat \<Rightarrow> health_call" where
  "promptBackend i = Answers (HealthOk False) 0"

text \<open>
  A backend that is never ready and takes 30 seconds for every health check, and one
  whose third poll never settles.
\<close>

definition slowBackend :: "nat \<Rightarrow> health_call" where
  "slowBackend i = Answers (HealthOk False) 30000"

definition stallingBackend :: "nat \<Rightarrow> health_call" where
  "stallingBackend i = (if i = 3 then Stalls else Answers (HealthOk False) 0)"

declare pollLoop.simps [simp del]

text \<open>
  A backend that never reports \<^verbatim>\<open>rag_initialized: true\<close>; the clock when the answer of
  the \<open>k\<close>-th poll arrives if polling goes on that long (\<open>None\<close> when one of the checks up
  to the \<open>k\<close>-th never settles); and whether that clock is at 30 minutes or more at one of
  the polls after the \<open>a\<close>-th, up to the 60th.
\<close>

definition neverReady :: "(nat \<Rightarrow> health_call) \<Rightarrow> bool" where
  "neverReady backend =
     (\<forall>i. case backend i of Stalls \<Rightarrow> True | Answers h lat \<Rightarrow> \<not> health_ragInitialized h)"

fun elapsedAfter :: "(nat \<Rightarrow> health_call) \<Rightarrow> nat \<Rightarrow> nat option" where
  "elapsedAfter backend 0 = (case backend 0 of Stalls \<Rightarrow> None | Answers h lat \<Rightarrow> Some lat)"
| "elapsedAfter backend (Suc k) =
     (case elapsedAfter backend k of
        None \<Rightarrow> None
      | Some e \<Rightarrow>
          (case backend (Suc k) of Stalls \<Rightarrow> None | Answers h lat \<Rightarrow> Some (e + 2000 + lat)))"

definition timesOutAfter :: "(nat \<Rightarrow> health_call) \<Rightarrow> nat \<Rightarrow> bool" where
  "timesOutAfter backend a =
     (\<exists>k. a < k \<and> k \<le> maxAttempts \<and>
          (case elapsedAfter backend k of None \<Rightarrow> False | Some e \<Rightarrow> LOADING_TIMEOUT_TIME \<le> e))"

section \<open>ApiService.request (static/js/services/api.js)\<close>

text \<open>
  \<^verbatim>\<open>request\<close> starts a timer of \<^verbatim>\<open>this.timeout\<close> milliseconds that aborts the \<^verbatim>\<open>fetch\<close>, and
  clears it as soon as \<^verbatim>\<open>fetch\<close> has resolved (the response's status line and headers
  are there) or rejected; the body is read afterwards, by \<^verbatim>\<open>response.json()\<close>. The network
  is the environment. Time is a clock in milliseconds that starts at 0 with the call:
  the network never answers, or \<^verbatim>\<open>fetch\<close> rejects at time \<open>t\<close>, or the response arrives at
  time \<open>t\<close> and its body is complete \<open>d\<close> milliseconds later, or never. An answer that
  arrives at the very moment the timer fires counts as late.
\<close>

definition API_CONFIG_timeout :: nat where
  "API_CONFIG_timeout = 60000"

text \<open>The decimal digits of a number, for \<^verbatim>\<open>`HTTP ${response.status}`\<close>.\<close>

fun show_nat :: "nat \<Rightarrow> string" where
  "show_nat n =
     (if n < 10 then [char_of (48 + n)] else show_nat (n div 10) @ [char_of (48 + n mod 10)])"

declare show_nat.simps [simp del]

datatype 'j body_phase =
    BodyParsed nat 'j
  | BodyUnparsable nat
  | BodyStalls

datatype 'j net_behaviour =
    NoResponse
  | NetworkFailure nat js_error
  | ResponseAt nat nat "'j body_phase"

text \<open>
  What the promise returned by \<^verbatim>\<open>request\<close> does: it stays pending for ever, or settles
  at a time with a value (\<open>Inr\<close>) or an error (\<open>Inl\<close>). \<open>aborted\<close> says whether the
  timer fired and called \<^verbatim>\<open>controller.abort()\<close>. \<open>message_of\<close> reads the \<^verbatim>\<open>message\<close>
  field of an error body.
\<close>

datatype 'a settled = Pending | Settles nat 'a

record 'j request_result =
  outcome :: "(js_error + 'j) settled"
  aborted :: bool

definition request ::
  "('j \<Rightarrow> string option) \<Rightarrow> nat \<Rightarrow> 'j net_behaviour \<Rightarrow> 'j request_result" where
  "request message_of timeout nb =
     (let timedOut = \<lparr>outcome = Settles timeout (Inl (Error ''Request timeout'' (Some 408))),
                       aborted = True\<rparr>
      in case nb of
        NoResponse \<Rightarrow> timedOut
      | NetworkFailure t e \<Rightarrow>
          if t < timeout then
            \<lparr>outcome = Settles t (Inl (if e = AbortError then Error ''Request timeout'' (Some 408)
                                        else e)),
             aborted = False\<rparr>
          else timedOut
      | ResponseAt t status body \<Rightarrow>
          if t < timeout then
            (if \<not> response_ok status then
               (case body of
                  BodyStalls \<Rightarrow> \<lparr>outcome = Pending, aborted = False\<rparr>
                | BodyUnparsable d \<Rightarrow>
                    \<lparr>outcome = Settles (t + d)
                       (Inl (Error (''HTTP '' @ show_nat status) (Some status))),
                     aborted = False\<rparr>
                | BodyParsed d errorData \<Rightarrow>
                    \<lparr>outcome = Settles (t + d)
                       (Inl (Error (case message_of errorData of
                                      None \<Rightarrow> ''HTTP '' @ show_nat status
                                    | Some m \<Rightarrow> if js_truthy m then m
                                               else ''HTTP '' @ show_nat status)
                                   (Some status))),
                     aborted = False\<rparr>)
             else
               (case body of
                  BodyStalls \<Rightarrow> \<lparr>outcome = Pending, aborted = False\<rparr>
                | BodyUnparsable d \<Rightarrow> \<lparr>outcome = Settles (t + d) (Inl SyntaxError), aborted = False\<rparr>
                | BodyParsed d j \<Rightarrow> \<lparr>outcome = Settles (t + d) (Inr j), aborted = False\<rparr>))
          else timedOut)"

text \<open>No response and no network error within the time limit.\<close>

definition noResponseBefore :: "nat \<Rightarrow> 'j net_behaviour \<Rightarrow> bool" where
  "noResponseBefore timeout nb =
     (case nb of
        NoResponse \<Rightarrow> True
      | NetworkFailure t e \<Rightarrow> timeout \<le> t
      | ResponseAt t status body \<Rightarrow> timeout \<le> t)"


section \<open>The query function (netlify/functions/query.js)\<close>

text \<open>
  A JSON value, as \<^verbatim>\<open>JSON.parse\<close> returns it. The event's body is modelled by what
  \<^verbatim>\<open>JSON.parse(event.body || '{}')\<close> makes of it: no body (the empty object is parsed
  instead), a text that is not JSON (the parse throws), or a JSON value.
\<close>

datatype json =
    JNull
  | JBool bool
  | JNum rat
  | JStr string
  | JArr "json list"
  | JObj "(string \<times> json) list"

datatype event_body = NoBody | MalformedBody | JsonBody json

record event =
  httpMethod :: string
  body :: event_body
  headers :: "string \<rightharpoonup> string"

text \<open>
  \<^verbatim>\<open>responseCache\<close> is a \<^verbatim>\<open>Map\<close>: its keys are in insertion order, \<^verbatim>\<open>set\<close> replaces the
  value of a key it has and appends a new key at the end.
\<close>

record cache_entry =
  cache_response :: string
  cache_timestamp :: int

type_synonym response_cache = "(string \<times> cache_entry) list"

definition CACHE_TTL :: int where
  "CACHE_TTL = 3600000"

fun cache_set :: "response_cache \<Rightarrow> string \<Rightarrow> cache_entry \<Rightarrow> response_cache" where
  "cache_set [] k v = [(k, v)]"
| "cache_set (p # ps) k v = (if fst p = k then (k, v) # ps else p # cache_set ps k v)"

definition cache_get :: "response_cache \<Rightarrow> string \<Rightarrow> cache_entry option" where
  "cache_get c k = map_of c k"

definition cache_delete :: "response_cache \<Rightarrow> string \<Rightarrow> response_cache" where
  "cache_delete c k = filter (\<lambda>p. fst p \<noteq> k) c"

definition getCacheKey :: "string \<Rightarrow> string" where
  "getCacheKey query = ''query_'' @ js_trim (js_toLowerCase query)"

text \<open>
  What \<^verbatim>\<open>callGroqAPI\<close> does: it rejects with \<^verbatim>\<open>{status: 429}\<close>, it rejects with an
  \<^verbatim>\<open>Error\<close>, or it resolves with the parsed answer, of which the handler reads
  \<^verbatim>\<open>choices[0]?.message?.content\<close> (\<open>NoChoices\<close>: there is no \<^verbatim>\<open>choices\<close> to index).
  The rest of the environment: the API key and the model of \<^verbatim>\<open>process.env\<close>, the clock
  at the cache lookup and at the cache update, and \<open>responseTime\<close>, the number
  \<^verbatim>\<open>parseFloat(((Date.now() - startTime) / 1000).toFixed(2))\<close>, a floating-point result
  the model takes as given.
\<close>

datatype llm_choices = NoChoices | Choices "string option list"

datatype llm_outcome =
    LlmRateLimited
  | LlmFailed string
  | LlmAnswered llm_choices

record query_env =
  envApiKey :: "string option"
  model :: string
  nowCheck :: int
  llm :: llm_outcome
  responseTime :: rat
  nowStore :: int

text \<open>
  The response: its status and its body before \<^verbatim>\<open>JSON.stringify\<close>; an error body has a
  message, the \<^verbatim>\<open>rate_limited\<close> flag and the error's text, a success body the answer,
  \<^verbatim>\<open>cached\<close>, \<^verbatim>\<open>response_time\<close> and the model. The result also says what the cache is
  afterwards and whether \<^verbatim>\<open>callGroqAPI\<close> was called.
\<close>

datatype response_body =
    EmptyBody
  | ErrorBody string bool "string option"
  | SuccessBody string bool rat "string option"

record handler_result =
  statusCode :: nat
  responseBody :: response_body
  cacheAfter :: response_cache
  llmCalled :: bool

text \<open>\<^verbatim>\<open>body.query\<close>: reading a property of \<^verbatim>\<open>null\<close> throws a TypeError.\<close>

fun body_query :: "json \<Rightarrow> js_error + json option" where
  "body_query JNull = Inl TypeError"
| "body_query (JObj props) = Inr (map_of props ''query'')"
| "body_query j = Inr None"

text \<open>\<^verbatim>\<open>event.headers['x-groq-api-key'] || process.env.GROQ_API_KEY\<close>.\<close>

definition availableApiKey :: "query_env \<Rightarrow> event \<Rightarrow> string option" where
  "availableApiKey env ev =
     (case headers ev ''x-groq-api-key'' of
        Some h \<Rightarrow> if js_truthy h then Some h
                 else (case envApiKey env of
                         None \<Rightarrow> None
                       | Some k \<Rightarrow> if js_truthy k then Some k else None)
      | None \<Rightarrow> (case envApiKey env of
                   None \<Rightarrow> None
                 | Some k \<Rightarrow> if js_truthy k then Some k else None))"

definition assistantMessage :: "llm_choices \<Rightarrow> js_error + string" where
  "assistantMessage cs =
     (case cs of
        NoChoices \<Rightarrow> Inl TypeError
      | Choices [] \<Rightarrow> Inr ''No response generated''
      | Choices (None # rest) \<Rightarrow> Inr ''No response generated''
      | Choices (Some c # rest) \<Rightarrow> Inr (if js_truthy c then c else ''No response generated''))"

text \<open>The \<^verbatim>\<open>catch\<close> block's answer to an error without \<^verbatim>\<open>status === 429\<close>.\<close>

definition internalError :: "js_error \<Rightarrow> response_cache \<Rightarrow> bool \<Rightarrow> handler_result" where
  "internalError e cache called =
     \<lparr>statusCode = 500,
      responseBody = ErrorBody ''An error occurred processing your request'' False
                       (Some (error_message e)),
      cacheAfter = cache, llmCalled = called\<rparr>"

definition queryRequired :: "response_cache \<Rightarrow> handler_result" where
  "queryRequired cache =
     \<lparr>statusCode = 400, responseBody = ErrorBody ''Query is required'' False None,
      cacheAfter = cache, llmCalled = False\<rparr>"

text \<open>The handler from the API key on, for a query that passed the check.\<close>

definition answerQuery :: "query_env \<Rightarrow> event \<Rightarrow> response_cache \<Rightarrow> string \<Rightarrow> handler_result" where
  "answerQuery env ev cache query =
     (case availableApiKey env ev of
        None \<Rightarrow>
          \<lparr>statusCode = 401,
           responseBody =
             ErrorBody ''API key is required. Please add your Groq API key in settings.'' False None,
           cacheAfter = cache, llmCalled = False\<rparr>
      | Some apiKey \<Rightarrow>
          (let cacheKey = getCacheKey query;
               cached = cache_get cache cacheKey
           in case (case cached of
                      None \<Rightarrow> None
                    | Some c \<Rightarrow> if nowCheck env - cache_timestamp c < CACHE_TTL then Some c else None)
              of
                Some c \<Rightarrow>
                  \<lparr>statusCode = 200, responseBody = SuccessBody (cache_response c) True 0 None,
                   cacheAfter = cache, llmCalled = False\<rparr>
              | None \<Rightarrow>
                  (case llm env of
                     LlmRateLimited \<Rightarrow>
                       \<lparr>statusCode = 429,
                        responseBody =
                          ErrorBody
                            ''Rate limit exceeded. Please try again later or add your own API key.''
                            True None,
                        cacheAfter = cache, llmCalled = True\<rparr>
                   | LlmFailed m \<Rightarrow> internalError (Error m None) cache True
                   | LlmAnswered cs \<Rightarrow>
                       (case assistantMessage cs of
                          Inl e \<Rightarrow> internalError e cache True
                        | Inr msg \<Rightarrow>
                            (let cache1 = cache_set cache cacheKey
                                            \<lparr>cache_response = msg, cache_timestamp = nowStore env\<rparr>;
                                 cache2 = (if length cache1 > 100
                                           then cache_delete cache1 (fst (hd cache1))
                                           else cache1)
                             in \<lparr>statusCode = 200,
                                 responseBody = SuccessBody msg False (responseTime env)
                                                  (Some (model env)),
                                 cacheAfter = cache2, llmCalled = True\<rparr>)))))"

text \<open>
  The handler. The check \<^verbatim>\<open>!query || typeof query !== 'string' || query.trim() === ''\<close>
  lets only non-empty strings with a non-blank character pass.
\<close>

definition handler :: "query_env \<Rightarrow> event \<Rightarrow> response_cache \<Rightarrow> handler_result" where
  "handler env ev cache =
     (if httpMethod ev = ''OPTIONS'' then
        \<lparr>statusCode = 200, responseBody = EmptyBody, cacheAfter = cache, llmCalled = False\<rparr>
      else if httpMethod ev \<noteq> ''POST'' then
        \<lparr>statusCode = 405, responseBody = ErrorBody ''Method not allowed'' False None,
         cacheAfter = cache, llmCalled = False\<rparr>
      else
        (case (case body ev of
                 NoBody \<Rightarrow> Inr (JObj [])
               | MalformedBody \<Rightarrow> Inl SyntaxError
               | JsonBody j \<Rightarrow> Inr j)
         of
           Inl e \<Rightarrow> internalError e cache False
         | Inr parsed \<Rightarrow>
             (case body_query parsed of
                Inl e \<Rightarrow> internalError e cache False
              | Inr (Some (JStr query)) \<Rightarrow>
                  if \<not> js_truthy query \<or> js_trim query = [] then queryRequired cache
                  else answerQuery env ev cache query
              | Inr other \<Rightarrow> queryRequired cache)))"


text \<open>
  For stating the properties: a body that is absent or is JSON other than \<^verbatim>\<open>null\<close>; the
  request's query, when its body is an object whose \<^verbatim>\<open>query\<close> field is a string that is
  not empty after trimming; an error body; and a sample environment and request.
\<close>

definition bodyReadable :: "event \<Rightarrow> bool" where
  "bodyReadable ev =
     (case body ev of NoBody \<Rightarrow> True | MalformedBody \<Rightarrow> False | JsonBody j \<Rightarrow> j \<noteq> JNull)"

definition requestQuery :: "event \<Rightarrow> string option" where
  "requestQuery ev =
     (case body ev of
        JsonBody (JObj props) \<Rightarrow>
          (case map_of props ''query'' of
             Some (JStr q) \<Rightarrow> if js_trim q = [] then None else Some q
           | _ \<Rightarrow> None)
      | _ \<Rightarrow> None)"

fun isErrorBody :: "response_body \<Rightarrow> bool" where
  "isErrorBody (ErrorBody m r e) = True"
| "isErrorBody b = False"

definition sampleEnv :: query_env where
  "sampleEnv = \<lparr>envApiKey = None, model = ''llama-3.3-70b-versatile'', nowCheck = 1000,
     llm = LlmAnswered (Choices [Some ''VCET is an engineering college.'']),
     responseTime = 6 / 5, nowStore = 2200\<rparr>"

definition sampleEvent :: "string \<Rightarrow> event" where
  "sampleEvent q = \<lparr>httpMethod = ''POST'', body = JsonBody (JObj [(''query'', JStr q)]),
     headers = [''x-groq-api-key'' \<mapsto> ''gsk_abc'']\<rparr>"


section \<open>Properties of the storage adapter\<close>

lemma StorageService_unavailable_defaults:
  assumes "\<not> isAvailable svc"
  shows "StorageService_get parse svc ls key d = Inr d"
    and "StorageService_set stringify svc ls key v = (Inr False, ls)"
    and "StorageService_getRaw svc ls key ds = Inr ds"
    and "StorageService_setRaw svc ls key s = (Inr False, ls)"
    and "StorageService_remove svc ls key = (Inr False, ls)"
    and "StorageService_has svc ls key = Inr False"
    and "StorageService_clear svc ls = (Inr False, ls)"
  using assms
  by (simp_all add: StorageService_get_def StorageService_set_def StorageService_getRaw_def
      StorageService_setRaw_def StorageService_remove_def StorageService_has_def
      StorageService_clear_def)

lemma StorageService_guarded_never_throw:
  shows "\<not> isl (StorageService_get parse svc ls key d)"
    and "\<not> isl (fst (StorageService_set stringify svc ls key v))"
    and "\<not> isl (fst (StorageService_setRaw svc ls key s))"
    and "\<not> isl (fst (StorageService_remove svc ls key))"
    and "\<not> isl (fst (StorageService_clear svc ls))"
  by (simp_all add: StorageService_get_def StorageService_set_def
      StorageService_setRaw_def StorageService_remove_def
      StorageService_clear_def split: sum.splits option.splits)

lemma StorageService_new_unavailable:
  "denied ls \<or> full ls \<Longrightarrow> \<not> isAvailable (fst (StorageService_new ls))"
  by (auto simp: StorageService_new_def checkAvailability_def ls_setItem_def split: sum.splits)

text \<open>
  C8. The claim: no operation of the adapter (get, set, getRaw, setRaw, remove, has,
  clear) ever throws; when the store is unavailable or a single operation fails, the call
  returns false or the caller's default. For a service built while the store worked
  (\<open>isAvailable\<close> is true), a later \<^verbatim>\<open>localStorage.getItem\<close> that throws is caught by
  \<^verbatim>\<open>get\<close> but not by \<^verbatim>\<open>getRaw\<close> and \<^verbatim>\<open>has\<close>: both throw, here at the key
  \<^verbatim>\<open>theme\<close> with the default \<^verbatim>\<open>light\<close>, where \<^verbatim>\<open>get\<close> on the same store returns
  its default.
\<close>

theorem StorageService_getRaw_has_throw:
  "isAvailable (fst (StorageService_new \<lparr>items = Map.empty, denied = False, full = False\<rparr>))
   \<and> StorageService_getRaw \<lparr>isAvailable = True\<rparr>
        \<lparr>items = Map.empty, denied = True, full = False\<rparr> ''theme'' ''light'' = Inl SecurityError
   \<and> StorageService_has \<lparr>isAvailable = True\<rparr>
        \<lparr>items = Map.empty, denied = True, full = False\<rparr> ''theme'' = Inl SecurityError
   \<and> StorageService_get Inr \<lparr>isAvailable = True\<rparr>
        \<lparr>items = Map.empty, denied = True, full = False\<rparr> ''theme'' ''light'' = Inr ''light''"
  by (simp add: StorageService_new_def checkAvailability_def ls_setItem_def ls_removeItem_def
      StorageService_getRaw_def StorageService_has_def StorageService_get_def ls_getItem_def)

text \<open>
  C9. Credential round trip. On a service whose store is available and accepts the
  write, \<^verbatim>\<open>setApiKey\<close> with a non-empty key followed by \<^verbatim>\<open>getApiKey\<close> returns that
  very key; \<^verbatim>\<open>setApiKey\<close> with the empty string, or \<^verbatim>\<open>remove\<close> of the key's entry,
  followed by \<^verbatim>\<open>getApiKey\<close> returns \<^verbatim>\<open>null\<close>.
\<close>

theorem credential_roundtrip:
  assumes "isAvailable svc" and "\<not> denied ls" and "\<not> full ls" and "key \<noteq> []"
  shows "StorageService_getApiKey svc (snd (StorageService_setApiKey svc ls key)) = Inr (Some key)
       \<and> StorageService_getApiKey svc (snd (StorageService_setApiKey svc ls [])) = Inr None
       \<and> StorageService_getApiKey svc (snd (StorageService_remove svc ls StorageKeys_API_KEY))
           = Inr None"
  using assms
  by (simp add: StorageService_getApiKey_def StorageService_setApiKey_def
      StorageService_setRaw_def StorageService_remove_def StorageService_getRaw_def
      ls_setItem_def ls_removeItem_def ls_getItem_def js_truthy_def)

theorem credential_roundtrip_witness:
  "isAvailable \<lparr>isAvailable = True\<rparr>
   \<and> \<not> denied \<lparr>items = [StorageKeys_API_KEY \<mapsto> ''gsk_old''], denied = False, full = False\<rparr>
   \<and> \<not> full \<lparr>items = [StorageKeys_API_KEY \<mapsto> ''gsk_old''], denied = False, full = False\<rparr>
   \<and> ''gsk_abc'' \<noteq> []
   \<and> StorageService_getApiKey \<lparr>isAvailable = True\<rparr>
        (snd (StorageService_setApiKey \<lparr>isAvailable = True\<rparr>
           \<lparr>items = [StorageKeys_API_KEY \<mapsto> ''gsk_old''], denied = False, full = False\<rparr>
           ''gsk_abc'')) = Inr (Some ''gsk_abc'')
   \<and> StorageService_getApiKey \<lparr>isAvailable = True\<rparr>
        (snd (StorageService_setApiKey \<lparr>isAvailable = True\<rparr>
           \<lparr>items = [StorageKeys_API_KEY \<mapsto> ''gsk_old''], denied = False, full = False\<rparr> []))
        = Inr None
   \<and> StorageService_getApiKey \<lparr>isAvailable = True\<rparr>
        (snd (StorageService_remove \<lparr>isAvailable = True\<rparr>
           \<lparr>items = [StorageKeys_API_KEY \<mapsto> ''gsk_old''], denied = False, full = False\<rparr>
           StorageKeys_API_KEY))
        = Inr None"
  using credential_roundtrip [of "\<lparr>isAvailable = True\<rparr>"
      "\<lparr>items = [StorageKeys_API_KEY \<mapsto> ''gsk_old''], denied = False, full = False\<rparr>"
      "''gsk_abc''"]
  by simp

section \<open>Properties of the chat client\<close>

lemmas ui_defs = emit_def updateCharCount_def disableMessageInput_def enableMessageInput_def
  handleRateLimitExceeded_def dismissRateLimitPopup_def resetRateLimitState_def showToast_def

lemma netCalls_emit: "netCalls (emit es s) = netCalls s + length (filter isFetch es)"
  by (simp add: netCalls_def emit_def)

lemma sendQuery_localStorage: "localStorage (snd (sendQuery r q s)) = localStorage s"
  by (simp add: sendQuery_def ui_defs Let_def split: sum.splits option.splits fetch_result.splits)

lemma sendQuery_netCalls:
  "\<not> denied (localStorage s) \<Longrightarrow> netCalls (snd (sendQuery r q s)) = Suc (netCalls s)"
  by (simp add: sendQuery_def ui_defs Let_def netCalls_def ls_getItem_def split: sum.splits option.splits fetch_result.splits)

lemma sendQuery_httpFailure_step:
  assumes "httpFailure r" "\<not> denied (localStorage s)"
  shows "(isRateLimited s \<longrightarrow> isRateLimited (snd (sendQuery r q s)))
       \<and> (\<not> isRateLimited (snd (sendQuery r q s)) \<longrightarrow>
            consecutiveFailures (snd (sendQuery r q s)) = Suc (consecutiveFailures s)
            \<and> consecutiveFailures (snd (sendQuery r q s)) < 3)"
  using assms
  by (auto simp add: sendQuery_def ui_defs Let_def httpFailure_def ls_getItem_def MAX_CONSECUTIVE_FAILURES_def response_ok_def
       split: sum.splits option.splits fetch_result.splits)

lemma sendQueries_httpFailures:
  assumes "\<forall>rq \<in> set rs. httpFailure (fst rq)" "\<not> denied (localStorage s)"
    "\<not> isRateLimited (sendQueries rs s)"
  shows "consecutiveFailures (sendQueries rs s) = consecutiveFailures s + length rs
       \<and> (rs \<noteq> [] \<longrightarrow> consecutiveFailures (sendQueries rs s) < 3) \<and> \<not> isRateLimited s"
  using assms
proof (induction rs arbitrary: s)
  case Nil
  then show ?case by simp
next
  case (Cons rq rs)
  obtain r q where rq: "rq = (r, q)" by (cases rq)
  let ?s1 = "snd (sendQuery r q s)"
  have h: "httpFailure r" using Cons.prems(1) rq by simp
  have d1: "\<not> denied (localStorage ?s1)" using Cons.prems(2) by (simp add: sendQuery_localStorage)
  have nb: "\<not> isRateLimited (sendQueries rs ?s1)" using Cons.prems(3) rq by simp
  have p: "\<forall>rq \<in> set rs. httpFailure (fst rq)" using Cons.prems(1) by simp
  note ih = Cons.IH [OF p d1 nb]
  have st: "consecutiveFailures ?s1 = Suc (consecutiveFailures s) \<and> consecutiveFailures ?s1 < 3 \<and> \<not> isRateLimited s"
    using sendQuery_httpFailure_step[OF h Cons.prems(2), of q] ih by blast
  show ?case using ih st rq by (cases rs) auto
qed

lemma sendMessage_blocked_netCalls:
  "isRateLimited s \<Longrightarrow> netCalls (sendMessage stringify env s) = netCalls s"
  by (simp add: sendMessage_def Let_def openSettingsModal_def ui_defs netCalls_def split: sum.splits option.splits)

lemma sendMessage_blocked_frame:
  "isRateLimited s \<Longrightarrow> chatHistory (sendMessage stringify env s) = chatHistory s
     \<and> isRateLimited (sendMessage stringify env s)
     \<and> consecutiveFailures (sendMessage stringify env s) = consecutiveFailures s
     \<and> localStorage (sendMessage stringify env s) = localStorage s"
  by (simp add: sendMessage_def Let_def openSettingsModal_def ui_defs netCalls_def split: sum.splits option.splits)


lemmas eval_defs = sendQuery_def sendMessage_def addMessage_def saveChatHistory_def openSettingsModal_def
  ui_defs Let_def netCalls_def ls_getItem_def ls_setItem_def initialState_def emptyStore_def
  js_trim_def js_truthy_def js_isWhiteSpace_def MAX_CONSECUTIVE_FAILURES_def response_ok_def
  js_slice_def

text \<open>
  C1, as stated, fails. Three calls of \<^verbatim>\<open>sendQuery\<close> in a row whose \<^verbatim>\<open>fetch\<close> is rejected
  (the network is down: no timeout is involved) all fail, yet \<^verbatim>\<open>isRateLimited\<close> stays
  false, and the next \<^verbatim>\<open>sendMessage\<close> does call the network.
\<close>

theorem network_failures_do_not_block:
  "isl (fst (sendQuery (FetchRejected TypeError) ''hi'' (initialState emptyStore)))
   \<and> isl (fst (sendQuery (FetchRejected TypeError) ''hi''
         (sendQueries [(FetchRejected TypeError, ''hi'')] (initialState emptyStore))))
   \<and> isl (fst (sendQuery (FetchRejected TypeError) ''hi''
         (sendQueries [(FetchRejected TypeError, ''hi''), (FetchRejected TypeError, ''hi'')]
            (initialState emptyStore))))
   \<and> \<not> isRateLimited
         (sendQueries [(FetchRejected TypeError, ''hi''), (FetchRejected TypeError, ''hi''),
                       (FetchRejected TypeError, ''hi'')] (initialState emptyStore))
   \<and> netCalls
         (sendMessage sampleStringify
            \<lparr>net = FetchRejected TypeError, userTime = ''t1'', botTime = ''t2''\<rparr>
            ((sendQueries [(FetchRejected TypeError, ''hi''), (FetchRejected TypeError, ''hi''),
                           (FetchRejected TypeError, ''hi'')] (initialState emptyStore))
               \<lparr>messageInput_value := ''hi''\<rparr>))
       = Suc (netCalls
           (sendQueries [(FetchRejected TypeError, ''hi''), (FetchRejected TypeError, ''hi''),
                         (FetchRejected TypeError, ''hi'')] (initialState emptyStore)))"
  by (simp add: eval_defs)

lemma sendQuery_429:
  "\<not> denied (localStorage s) \<Longrightarrow>
     isRateLimited (snd (sendQuery (FetchResponse 429 (Some d)) q s))"
  by (simp add: sendQuery_def ui_defs Let_def ls_getItem_def)

lemma sendQuery_countedFailure:
  assumes "countedFailure r" "\<not> denied (localStorage s)" "\<not> isRateLimited s"
  shows "consecutiveFailures (snd (sendQuery r q s)) = Suc (consecutiveFailures s)
       \<and> isRateLimited (snd (sendQuery r q s)) = (3 \<le> Suc (consecutiveFailures s))"
  using assms
  by (auto simp add: sendQuery_def ui_defs Let_def countedFailure_def ls_getItem_def
      MAX_CONSECUTIVE_FAILURES_def split: fetch_result.splits option.splits)

lemma sendQuery_rejected:
  "fetchRejected r \<Longrightarrow>
     isRateLimited (snd (sendQuery r q s)) = isRateLimited s
     \<and> consecutiveFailures (snd (sendQuery r q s)) = consecutiveFailures s"
  by (cases r) (simp_all add: sendQuery_def ui_defs Let_def split: sum.splits)

lemma sendQueries_rejected:
  "\<forall>rq \<in> set rs. fetchRejected (fst rq) \<Longrightarrow>
     isRateLimited (sendQueries rs s) = isRateLimited s
     \<and> consecutiveFailures (sendQueries rs s) = consecutiveFailures s"
proof (induction rs arbitrary: s)
  case Nil
  then show ?case by simp
next
  case (Cons rq rs)
  obtain r q where rq: "rq = (r, q)" by (cases rq)
  have r: "fetchRejected r" using Cons.prems rq by simp
  have rest: "\<forall>rq \<in> set rs. fetchRejected (fst rq)" using Cons.prems by simp
  show ?case
    using Cons.IH [OF rest, of "snd (sendQuery r q s)"] sendQuery_rejected [OF r, of q s] rq
    by simp
qed

lemma sendQueries_blocked:
  assumes "\<not> denied (localStorage s)" "\<forall>rq \<in> set rs. httpFailure (fst rq)" "3 \<le> length rs"
  shows "isRateLimited (sendQueries rs s)"
proof (rule ccontr)
  assume nb: "\<not> isRateLimited (sendQueries rs s)"
  from sendQueries_httpFailures [OF assms(2) assms(1) nb] assms(3)
  show False by auto
qed

text \<open>
  C1, amended. While \<^verbatim>\<open>isRateLimited\<close> is true, \<^verbatim>\<open>sendMessage\<close> makes no network call,
  adds nothing to the chat history and leaves the flag set. After three or more
  consecutive calls of \<^verbatim>\<open>sendQuery\<close> that the server answered with a status outside
  200-299 and a JSON body (the saved key being readable from the store, so that the
  request is sent), \<^verbatim>\<open>isRateLimited\<close> is true, so the next \<^verbatim>\<open>sendMessage\<close> makes no
  network call. A single answer 429 with a JSON body sets \<^verbatim>\<open>isRateLimited\<close> at once.
  Any other such answer, in a state that is not rate limited, adds one to
  \<^verbatim>\<open>consecutiveFailures\<close> and sets \<^verbatim>\<open>isRateLimited\<close> exactly when the count reaches 3.
  Calls whose \<^verbatim>\<open>fetch\<close> is rejected, however many, change neither \<^verbatim>\<open>isRateLimited\<close> nor
  \<^verbatim>\<open>consecutiveFailures\<close>.
\<close>

theorem rate_limit_blocks_sends:
  "(isRateLimited t \<longrightarrow>
      netCalls (sendMessage stringify env t) = netCalls t
      \<and> chatHistory (sendMessage stringify env t) = chatHistory t
      \<and> isRateLimited (sendMessage stringify env t))
   \<and> (\<not> denied (localStorage s) \<and> (\<forall>rq \<in> set rs. httpFailure (fst rq)) \<and> 3 \<le> length rs \<longrightarrow>
        isRateLimited (sendQueries rs s)
        \<and> netCalls (sendMessage stringify env (sendQueries rs s)) = netCalls (sendQueries rs s))
   \<and> (\<not> denied (localStorage u) \<longrightarrow>
        isRateLimited (snd (sendQuery (FetchResponse 429 (Some d)) q u)))
   \<and> (countedFailure r \<and> \<not> denied (localStorage w) \<and> \<not> isRateLimited w \<longrightarrow>
        consecutiveFailures (snd (sendQuery r q w)) = Suc (consecutiveFailures w)
        \<and> isRateLimited (snd (sendQuery r q w)) = (3 \<le> Suc (consecutiveFailures w)))
   \<and> ((\<forall>rq \<in> set rs'. fetchRejected (fst rq)) \<longrightarrow>
        isRateLimited (sendQueries rs' v) = isRateLimited v
        \<and> consecutiveFailures (sendQueries rs' v) = consecutiveFailures v)"
proof (intro conjI impI)
  assume "isRateLimited t"
  then show "netCalls (sendMessage stringify env t) = netCalls t"
    and "chatHistory (sendMessage stringify env t) = chatHistory t"
    and "isRateLimited (sendMessage stringify env t)"
    using sendMessage_blocked_netCalls sendMessage_blocked_frame by blast+
next
  assume a: "\<not> denied (localStorage s) \<and> (\<forall>rq \<in> set rs. httpFailure (fst rq)) \<and> 3 \<le> length rs"
  then show b: "isRateLimited (sendQueries rs s)"
    using sendQueries_blocked by blast
  then show "netCalls (sendMessage stringify env (sendQueries rs s)) = netCalls (sendQueries rs s)"
    by (rule sendMessage_blocked_netCalls)
next
  assume "\<not> denied (localStorage u)"
  then show "isRateLimited (snd (sendQuery (FetchResponse 429 (Some d)) q u))"
    by (rule sendQuery_429)
next
  assume a: "countedFailure r \<and> \<not> denied (localStorage w) \<and> \<not> isRateLimited w"
  then show "consecutiveFailures (snd (sendQuery r q w)) = Suc (consecutiveFailures w)"
    and "isRateLimited (snd (sendQuery r q w)) = (3 \<le> Suc (consecutiveFailures w))"
    using sendQuery_countedFailure by blast+
next
  assume a: "\<forall>rq \<in> set rs'. fetchRejected (fst rq)"
  then show "isRateLimited (sendQueries rs' v) = isRateLimited v"
    and "consecutiveFailures (sendQueries rs' v) = consecutiveFailures v"
    using sendQueries_rejected by blast+
qed


theorem rate_limit_blocks_sends_witness:
  "\<not> denied (localStorage (initialState emptyStore))
   \<and> httpFailure (FetchResponse 500 (Some sampleAnswer))
   \<and> isRateLimited
       (sendQueries
          [(FetchResponse 500 (Some sampleAnswer), ''a''),
           (FetchResponse 500 (Some sampleAnswer), ''b''),
           (FetchResponse 500 (Some sampleAnswer), ''c'')]
          (initialState emptyStore))
   \<and> isRateLimited (snd (sendQuery (FetchResponse 429 (Some sampleAnswer)) ''a''
         (initialState emptyStore)))
   \<and> countedFailure (FetchResponse 500 (Some sampleAnswer))
   \<and> \<not> isRateLimited (snd (sendQuery (FetchResponse 500 (Some sampleAnswer)) ''a''
         (initialState emptyStore)))
   \<and> fetchRejected (FetchRejected TypeError)
   \<and> \<not> isRateLimited
       (sendQueries
          [(FetchRejected TypeError, ''a''), (FetchRejected TypeError, ''b''),
           (FetchRejected TypeError, ''c'')]
          (initialState emptyStore))"
  using rate_limit_blocks_sends [where s = "initialState emptyStore"
      and rs = "[(FetchResponse 500 (Some sampleAnswer), ''a''),
           (FetchResponse 500 (Some sampleAnswer), ''b''),
           (FetchResponse 500 (Some sampleAnswer), ''c'')]"
      and u = "initialState emptyStore" and d = sampleAnswer and q = "''a''"
      and r = "FetchResponse 500 (Some sampleAnswer)" and w = "initialState emptyStore"
      and rs' = "[(FetchRejected TypeError, ''a''), (FetchRejected TypeError, ''b''),
           (FetchRejected TypeError, ''c'')]"
      and v = "initialState emptyStore"]
  by (simp add: initialState_def emptyStore_def httpFailure_def countedFailure_def
      response_ok_def)

text \<open>
  C2, as stated, fails. \<^verbatim>\<open>sendQuery\<close> with a text of 1001 characters, and with a text of
  blanks only, sends the request and returns the server's answer: there is no local
  validation error.
\<close>

theorem sendQuery_long_query_reaches_network:
  "length (replicate 1001 CHR ''a'') = 1001
   \<and> fst (sendQuery (FetchResponse 200 (Some sampleAnswer)) (replicate 1001 CHR ''a'')
        (initialState emptyStore)) = Inr sampleAnswer
   \<and> netCalls (snd (sendQuery (FetchResponse 200 (Some sampleAnswer)) (replicate 1001 CHR ''a'')
        (initialState emptyStore))) = 1
   \<and> fst (sendQuery (FetchResponse 200 (Some sampleAnswer)) ''   '' (initialState emptyStore))
       = Inr sampleAnswer
   \<and> netCalls (snd (sendQuery (FetchResponse 200 (Some sampleAnswer)) ''   ''
        (initialState emptyStore))) = 1"
  by (simp add: eval_defs sampleAnswer_def)

lemma sendMessage_empty: "js_trim (messageInput_value s) = [] \<Longrightarrow> sendMessage stringify env s = s"
  by (simp add: sendMessage_def js_truthy_def)

lemma saveChatHistory_netCalls: "netCalls (saveChatHistory stringify s) = netCalls s"
  by (simp add: saveChatHistory_def netCalls_def emit_def split: sum.splits)

lemma addMessage_netCalls: "netCalls (addMessage now c sndr opts s) = netCalls s"
  by (simp add: addMessage_def netCalls_def emit_def)

lemma netCalls_frame:
  "netCalls (s\<lparr>isProcessing := b\<rparr>) = netCalls s"
  "netCalls (s\<lparr>messageInput_value := v\<rparr>) = netCalls s"
  "netCalls (showToast m t s) = netCalls s"
  "netCalls (updateCharCount s) = netCalls s"
  by (simp_all add: netCalls_def ui_defs)

lemma sendMessage_netCalls:
  assumes "js_trim (messageInput_value s) \<noteq> []" "\<not> isProcessing s" "\<not> isRateLimited s"
    "\<not> denied (localStorage s)"
  shows "netCalls (sendMessage stringify env s) = Suc (netCalls s)"
proof -
  let ?msg = "js_trim (messageInput_value s)"
  let ?s3 = "emit [AutoResizeTextarea, ShowTypingIndicator]
                    (updateCharCount ((addMessage (userTime env) ?msg User NoOptions
                      (emit [SetSendBtnDisabled True, HideWelcomeScreen] (s\<lparr>isProcessing := True\<rparr>)))\<lparr>messageInput_value := []\<rparr>))"
  have d: "\<not> denied (localStorage ?s3)" using assms(4)
    by (simp add: ui_defs addMessage_def)
  have n3: "netCalls ?s3 = netCalls s"
    by (simp add: netCalls_frame netCalls_emit addMessage_netCalls)
  have q: "netCalls (snd (sendQuery (net env) ?msg ?s3)) = Suc (netCalls s)"
    using sendQuery_netCalls [OF d] n3 by simp
  obtain r s4 where rs: "sendQuery (net env) ?msg ?s3 = (r, s4)" by (cases "sendQuery (net env) ?msg ?s3")
  have n4: "netCalls s4 = Suc (netCalls s)" using q rs by simp
  show ?thesis
    using assms(1-3) rs n4
    by (cases r) (simp_all add: sendMessage_def Let_def js_truthy_def netCalls_emit
        saveChatHistory_netCalls addMessage_netCalls netCalls_frame)
qed

lemma fetches_emit: "fetches (emit es s) = fetches s @ filter isFetch es"
  by (simp add: fetches_def emit_def)

lemma fetches_frame:
  "fetches (s\<lparr>isProcessing := b\<rparr>) = fetches s"
  "fetches (s\<lparr>messageInput_value := v\<rparr>) = fetches s"
  "fetches (showToast m t s) = fetches s"
  "fetches (updateCharCount s) = fetches s"
  "fetches (addMessage now c sndr opts s) = fetches s"
  "fetches (saveChatHistory stringify s) = fetches s"
  by (simp_all add: fetches_def ui_defs addMessage_def saveChatHistory_def split: sum.splits)

lemma sendQuery_fetches:
  "\<not> denied (localStorage s) \<Longrightarrow>
     fetches (snd (sendQuery r q s))
       = fetches s @ [Fetch endpoints_query (queryHeaders (localStorage s)) q]"
  by (simp add: sendQuery_def ui_defs Let_def fetches_def ls_getItem_def queryHeaders_def
      split: sum.splits option.splits fetch_result.splits)

lemma sendQuery_result:
  "\<not> denied (localStorage s) \<Longrightarrow>
     fst (sendQuery r q s) =
       (case r of
          FetchRejected e \<Rightarrow> Inl e
        | FetchResponse status None \<Rightarrow> Inl SyntaxError
        | FetchResponse status (Some d) \<Rightarrow>
            if status = 429 then Inl (Error ''Rate limit exceeded'' None)
            else if \<not> response_ok status then
              Inl (Error (case message d of
                            None \<Rightarrow> ''Failed to get response''
                          | Some m \<Rightarrow> if js_truthy m then m else ''Failed to get response'')
                     None)
            else Inr d)"
  by (simp add: sendQuery_def Let_def ls_getItem_def
      split: sum.splits option.splits fetch_result.splits)

lemma sendQuery_denied:
  "denied (localStorage s) \<Longrightarrow> sendQuery r q s = (Inl SecurityError, s)"
  by (simp add: sendQuery_def ls_getItem_def)

lemma sendMessage_fetches:
  assumes "js_trim (messageInput_value s) \<noteq> []" "\<not> isProcessing s" "\<not> isRateLimited s"
    "\<not> denied (localStorage s)"
  shows "fetches (sendMessage stringify env s)
           = fetches s @ [Fetch endpoints_query (queryHeaders (localStorage s))
                            (js_trim (messageInput_value s))]"
proof -
  let ?msg = "js_trim (messageInput_value s)"
  let ?s3 = "emit [AutoResizeTextarea, ShowTypingIndicator]
                    (updateCharCount ((addMessage (userTime env) ?msg User NoOptions
                      (emit [SetSendBtnDisabled True, HideWelcomeScreen] (s\<lparr>isProcessing := True\<rparr>)))\<lparr>messageInput_value := []\<rparr>))"
  have l: "localStorage ?s3 = localStorage s"
    by (simp add: ui_defs addMessage_def)
  have d: "\<not> denied (localStorage ?s3)" using assms(4) l by simp
  have n3: "fetches ?s3 = fetches s"
    by (simp add: fetches_frame fetches_emit)
  have q: "fetches (snd (sendQuery (net env) ?msg ?s3))
             = fetches s @ [Fetch endpoints_query (queryHeaders (localStorage s)) ?msg]"
    using sendQuery_fetches [OF d] n3 l by simp
  obtain r s4 where rs: "sendQuery (net env) ?msg ?s3 = (r, s4)"
    by (cases "sendQuery (net env) ?msg ?s3")
  have n4: "fetches s4 = fetches s @ [Fetch endpoints_query (queryHeaders (localStorage s)) ?msg]"
    using q rs by simp
  show ?thesis
    using assms(1-3) rs n4
    by (cases r) (simp_all add: sendMessage_def Let_def js_truthy_def fetches_emit fetches_frame)
qed

text \<open>
  C2, amended. \<^verbatim>\<open>sendQuery\<close> does not validate its argument. When the saved key can be
  read from the store, it makes exactly one network call for every text, whatever its
  length, with the text unchanged as the request's query, and its result is decided by
  the network's answer alone: the body of a 2xx answer, or the error of a rejected
  \<^verbatim>\<open>fetch\<close>, of an unparsable body or of a status outside 200-299. When the store cannot
  be read it throws the store's error before any network call. The only local rejection
  of a text is the caller's: \<^verbatim>\<open>sendMessage\<close> does nothing at all when the input is empty
  after trimming; otherwise (no request running, not rate limited, store readable) it
  makes exactly one network call, which carries the whole trimmed input, whatever its
  length.
\<close>

theorem sendQuery_does_not_validate:
  "(\<not> denied (localStorage s) \<longrightarrow>
      fetches (snd (sendQuery r q s))
        = fetches s @ [Fetch endpoints_query (queryHeaders (localStorage s)) q]
      \<and> fst (sendQuery r q s) =
          (case r of
             FetchRejected e \<Rightarrow> Inl e
           | FetchResponse status None \<Rightarrow> Inl SyntaxError
           | FetchResponse status (Some d) \<Rightarrow>
               if status = 429 then Inl (Error ''Rate limit exceeded'' None)
               else if \<not> response_ok status then
                 Inl (Error (case message d of
                               None \<Rightarrow> ''Failed to get response''
                             | Some m \<Rightarrow> if js_truthy m then m else ''Failed to get response'')
                        None)
               else Inr d))
   \<and> (denied (localStorage s) \<longrightarrow> sendQuery r q s = (Inl SecurityError, s))
   \<and> (js_trim (messageInput_value s) = [] \<longrightarrow> sendMessage stringify env s = s)
   \<and> (js_trim (messageInput_value s) \<noteq> [] \<and> \<not> isProcessing s \<and> \<not> isRateLimited s
        \<and> \<not> denied (localStorage s) \<longrightarrow>
        fetches (sendMessage stringify env s)
          = fetches s @ [Fetch endpoints_query (queryHeaders (localStorage s))
                           (js_trim (messageInput_value s))])"
  using sendQuery_fetches [of s r q] sendQuery_result [of s r q] sendQuery_denied [of s r q]
    sendMessage_empty [of s stringify env] sendMessage_fetches [of s stringify env]
  by blast

theorem sendQuery_does_not_validate_witness:
  "\<not> denied (localStorage ((initialState emptyStore)\<lparr>messageInput_value := replicate 1001 CHR ''a''\<rparr>))
   \<and> fetches (snd (sendQuery (FetchResponse 200 (Some sampleAnswer)) (replicate 1001 CHR ''a'')
        ((initialState emptyStore)\<lparr>messageInput_value := replicate 1001 CHR ''a''\<rparr>)))
       = [Fetch ''/api/query'' [(''Content-Type'', ''application/json'')] (replicate 1001 CHR ''a'')]
   \<and> fst (sendQuery (FetchResponse 200 (Some sampleAnswer)) (replicate 1001 CHR ''a'')
        ((initialState emptyStore)\<lparr>messageInput_value := replicate 1001 CHR ''a''\<rparr>))
       = Inr sampleAnswer
   \<and> fetches (sendMessage sampleStringify
        \<lparr>net = FetchResponse 200 (Some sampleAnswer), userTime = ''t1'', botTime = ''t2''\<rparr>
        ((initialState emptyStore)\<lparr>messageInput_value := replicate 1001 CHR ''a''\<rparr>))
       = [Fetch ''/api/query'' [(''Content-Type'', ''application/json'')] (replicate 1001 CHR ''a'')]"
  using sendQuery_does_not_validate [of
      "(initialState emptyStore)\<lparr>messageInput_value := replicate 1001 CHR ''a''\<rparr>"
      "FetchResponse 200 (Some sampleAnswer)" "replicate 1001 CHR ''a''" sampleStringify
      "\<lparr>net = FetchResponse 200 (Some sampleAnswer), userTime = ''t1'', botTime = ''t2''\<rparr>"]
  by (simp add: initialState_def emptyStore_def fetches_def js_trim_def js_isWhiteSpace_def
      queryHeaders_def endpoints_query_def response_ok_def)

lemma sendQuery_keeps_blocked: "isRateLimited s \<Longrightarrow> isRateLimited (snd (sendQuery r q s))"
  by (simp add: sendQuery_def ui_defs Let_def split: sum.splits option.splits fetch_result.splits)

lemma step_keeps_blocked:
  assumes "isRateLimited s" "a \<noteq> ClickSaveApiKey" "a \<noteq> CallResetRateLimitState"
  shows "isRateLimited (step stringify a s)"
proof (cases a)
  case (ClickSend env)
  then show ?thesis using assms(1) sendMessage_blocked_frame by simp
next
  case (CallSendQuery r q)
  then show ?thesis using assms(1) sendQuery_keeps_blocked by simp
qed (use assms in \<open>simp_all add: clearApiKey_def clearChat_def handleQuickAction_def
      openSettingsModal_def ui_defs Let_def split: sum.splits option.splits\<close>)

lemma step_unblock_resets_counter:
  assumes "isRateLimited s" "\<not> isRateLimited (step stringify a s)"
  shows "(a = ClickSaveApiKey \<or> a = CallResetRateLimitState)
       \<and> consecutiveFailures (step stringify a s) = 0"
proof -
  have a: "a = ClickSaveApiKey \<or> a = CallResetRateLimitState"
    using assms step_keeps_blocked by blast
  then show ?thesis
  proof
    assume "a = ClickSaveApiKey"
    then show ?thesis using assms
      by (auto simp add: saveApiKey_def ui_defs Let_def split: sum.splits option.splits if_splits)
  next
    assume "a = CallResetRateLimitState"
    then show ?thesis by (simp add: ui_defs)
  qed
qed

text \<open>
  C4. A successful \<^verbatim>\<open>sendQuery\<close> (status 200-299, JSON body) returns the body, sets
  \<^verbatim>\<open>consecutiveFailures\<close> to 0 and changes nothing else of the state but the trace of
  effects; in particular \<^verbatim>\<open>isRateLimited\<close> keeps its value. Of all the steps of the page,
  only saving a credential (\<^verbatim>\<open>saveApiKey\<close>) and \<^verbatim>\<open>resetRateLimitState\<close> turn a true
  \<^verbatim>\<open>isRateLimited\<close> into false, and they leave \<^verbatim>\<open>consecutiveFailures\<close> at 0.
\<close>

theorem success_resets_only_the_counter:
  assumes "response_ok status" and "\<not> denied (localStorage s)"
  shows "fst (sendQuery (FetchResponse status (Some d)) q s) = Inr d
       \<and> consecutiveFailures (snd (sendQuery (FetchResponse status (Some d)) q s)) = 0
       \<and> isRateLimited (snd (sendQuery (FetchResponse status (Some d)) q s)) = isRateLimited s
       \<and> (snd (sendQuery (FetchResponse status (Some d)) q s))\<lparr>effects := effects s\<rparr>
           = s\<lparr>consecutiveFailures := 0\<rparr>
       \<and> (\<forall>a. isRateLimited s \<and> \<not> isRateLimited (step stringify a s) \<longrightarrow>
             (a = ClickSaveApiKey \<or> a = CallResetRateLimitState)
             \<and> consecutiveFailures (step stringify a s) = 0)"
proof -
  have ok: "status \<noteq> 429" using assms(1) by (auto simp: response_ok_def)
  have "fst (sendQuery (FetchResponse status (Some d)) q s) = Inr d"
    and "consecutiveFailures (snd (sendQuery (FetchResponse status (Some d)) q s)) = 0"
    and "isRateLimited (snd (sendQuery (FetchResponse status (Some d)) q s)) = isRateLimited s"
    and "(snd (sendQuery (FetchResponse status (Some d)) q s))\<lparr>effects := effects s\<rparr>
           = s\<lparr>consecutiveFailures := 0\<rparr>"
    using assms ok
    by (simp_all add: sendQuery_def Let_def ls_getItem_def emit_def split: option.splits)
  then show ?thesis using step_unblock_resets_counter by blast
qed

theorem success_resets_only_the_counter_witness:
  "response_ok 200
   \<and> \<not> denied (localStorage ((initialState emptyStore)\<lparr>isRateLimited := True, consecutiveFailures := 3\<rparr>))
   \<and> isRateLimited (snd (sendQuery (FetchResponse 200 (Some sampleAnswer)) ''hi''
        ((initialState emptyStore)\<lparr>isRateLimited := True, consecutiveFailures := 3\<rparr>)))
   \<and> consecutiveFailures (snd (sendQuery (FetchResponse 200 (Some sampleAnswer)) ''hi''
        ((initialState emptyStore)\<lparr>isRateLimited := True, consecutiveFailures := 3\<rparr>))) = 0
   \<and> \<not> isRateLimited (step sampleStringify ClickSaveApiKey
        ((initialState emptyStore)\<lparr>isRateLimited := True, consecutiveFailures := 3,
           apiKeyInput_value := Some ''gsk_abc''\<rparr>))"
proof -
  have unblock: "\<not> isRateLimited (step sampleStringify ClickSaveApiKey
        ((initialState emptyStore)\<lparr>isRateLimited := True, consecutiveFailures := 3,
           apiKeyInput_value := Some ''gsk_abc''\<rparr>))"
    by (simp add: initialState_def emptyStore_def saveApiKey_def ui_defs Let_def
        js_trim_def js_isWhiteSpace_def js_truthy_def ls_setItem_def)
  show ?thesis
    using unblock success_resets_only_the_counter [of 200
      "(initialState emptyStore)\<lparr>isRateLimited := True, consecutiveFailures := 3\<rparr>"
      sampleAnswer "''hi''" sampleStringify]
    by (simp add: initialState_def emptyStore_def response_ok_def)
qed

text \<open>
  C5. \<^verbatim>\<open>chatHistory.slice(-50)\<close> is the history without its first \<open>length - 50\<close> entries:
  at most 50 entries, a suffix of the history, in the same order. \<^verbatim>\<open>saveChatHistory\<close>
  writes exactly that list under \<^verbatim>\<open>chatHistory\<close>, or leaves the store as it was when
  the list cannot be serialised or the write fails. \<^verbatim>\<open>addMessage\<close> appends at the end.
\<close>

theorem saved_history_is_last_50:
  "js_slice (- 50) h = drop (length h - 50) h
   \<and> length (js_slice (- 50) h) = min 50 (length h)
   \<and> suffix (js_slice (- 50) h) h
   \<and> saveChatHistory stringify s =
       (case stringify (drop (length (chatHistory s) - 50) (chatHistory s)) of
          Inl e \<Rightarrow> emit [ConsoleError] s
        | Inr text \<Rightarrow>
            if denied (localStorage s) \<or> full (localStorage s) then emit [ConsoleError] s
            else s\<lparr>localStorage :=
                    (localStorage s)\<lparr>items := (items (localStorage s))(''chatHistory'' \<mapsto> text)\<rparr>\<rparr>)
   \<and> chatHistory (addMessage now c sndr opts s)
       = chatHistory s @ [\<lparr>content = c, sender = sndr, timestamp = now, options = opts\<rparr>]"
proof -
  have sl: "js_slice (- 50) h = drop (length h - 50) h" for h :: "'x list"
    by (simp add: js_slice_def Let_def max_def nat_diff_distrib')
  have "suffix (drop (length h - 50) h) h" by (rule suffix_drop)
  then show ?thesis
    by (auto simp add: sl saveChatHistory_def ls_setItem_def addMessage_def emit_def
        split: sum.splits)
qed

section \<open>Properties of the loading sequence\<close>

lemma elapsedAfter_mono:
  "k \<le> m \<Longrightarrow> elapsedAfter backend m = Some x \<Longrightarrow> \<exists>y\<le>x. elapsedAfter backend k = Some y"
proof (induction m arbitrary: x)
  case 0
  then show ?case by simp
next
  case (Suc m)
  show ?case
  proof (cases "k = Suc m")
    case True
    then show ?thesis using Suc.prems(2) by auto
  next
    case False
    then have km: "k \<le> m" using Suc.prems(1) by simp
    from Suc.prems(2) obtain e where e: "elapsedAfter backend m = Some e" and ex: "e \<le> x"
      by (auto split: option.splits health_call.splits)
    from Suc.IH [OF km e] ex show ?thesis by auto
  qed
qed

lemma polls_append: "polls (xs @ ys) = polls xs + polls ys"
  by (simp add: polls_def)

lemma timeouts_append: "timeouts (xs @ ys) = timeouts xs + timeouts ys"
  by (simp add: timeouts_def)

lemma pollSleeps_append: "pollSleeps (xs @ ys) = pollSleeps xs + pollSleeps ys"
  by (simp add: pollSleeps_def)

lemma pollLoop_neverReady:
  assumes "neverReady backend"
  shows "a \<le> maxAttempts \<Longrightarrow> elapsedAfter backend a = Some e \<Longrightarrow>
         pollLoop backend False a e tr = (ex, a', e', tr') \<Longrightarrow>
           (ex = LoopTimedOut \<longleftrightarrow> timesOutAfter backend a)
         \<and> (ex = LoopDone \<longleftrightarrow> \<not> timesOutAfter backend a \<and> elapsedAfter backend maxAttempts \<noteq> None)
         \<and> a \<le> a' \<and> a' \<le> maxAttempts
         \<and> polls tr' = polls tr + (a' - a) + (if ex = LoopPending then 1 else 0)
         \<and> pollSleeps tr' = pollSleeps tr + (a' - a) + (if ex = LoopPending then 1 else 0)
         \<and> timeouts tr' = timeouts tr + (if ex = LoopTimedOut then 1 else 0)
         \<and> HideLoadingOverlay \<notin> set tr' - set tr
         \<and> (ex = LoopDone \<longrightarrow> a' = maxAttempts)
         \<and> (ex = LoopTimedOut \<longrightarrow> LOADING_TIMEOUT_TIME \<le> e')
         \<and> (ex = LoopPending \<longrightarrow> a' < maxAttempts)"
proof (induction "maxAttempts - a" arbitrary: a e tr)
  case 0
  then have "pollLoop backend False a e tr = (LoopDone, a, e, tr)"
    by (simp add: pollLoop.simps)
  with 0 show ?case by (auto simp add: timesOutAfter_def)
next
  case (Suc n)
  let ?tr1 = "tr @ [Sleep 2000, HealthCheck]"
  have lt: "a < maxAttempts" using Suc.hyps(2) by simp
  have later: "\<And>k x. a < k \<Longrightarrow> elapsedAfter backend k = Some x \<Longrightarrow>
                 \<exists>y\<le>x. elapsedAfter backend (Suc a) = Some y"
    by (rule elapsedAfter_mono) simp_all
  show ?case
  proof (cases "backend (Suc a)")
    case Stalls
    then have none: "elapsedAfter backend (Suc a) = None"
      using Suc.prems(2) by simp
    have "pollLoop backend False a e tr = (LoopPending, a, e + 2000, ?tr1)"
      using lt Stalls by (simp add: pollLoop.simps [of backend False a] Let_def)
    with Suc.prems(3) have r: "ex = LoopPending" "a' = a" "tr' = ?tr1" by auto
    have nto: "\<not> timesOutAfter backend a"
      using later none by (fastforce simp add: timesOutAfter_def split: option.splits)
    have nd: "elapsedAfter backend maxAttempts = None"
    proof (rule ccontr)
      assume "elapsedAfter backend maxAttempts \<noteq> None"
      then obtain x where "elapsedAfter backend maxAttempts = Some x" by auto
      from later [OF lt this] none show False by simp
    qed
    show ?thesis
      using r nto nd lt by (simp add: polls_def pollSleeps_def timeouts_def)
  next
    case (Answers h lat)
    let ?now = "e + 2000 + lat"
    let ?tr2 = "?tr1 @ (if ?now \<ge> LOADING_WARNING_TIME then [ShowLoadingWarning] else [])"
    have el: "elapsedAfter backend (Suc a) = Some ?now"
      using Suc.prems(2) Answers by simp
    have nr: "\<not> health_ragInitialized h"
      using assms Answers by (auto simp add: neverReady_def split: health_call.splits dest: spec [of _ "Suc a"])
    have p2: "polls ?tr2 = Suc (polls tr)" and t2: "timeouts ?tr2 = timeouts tr"
      and s2: "pollSleeps ?tr2 = Suc (pollSleeps tr)" and h2: "set ?tr2 - set tr \<subseteq> {Sleep 2000, HealthCheck, ShowLoadingWarning}"
      by (auto simp add: polls_def timeouts_def pollSleeps_def)
    show ?thesis
    proof (cases "LOADING_TIMEOUT_TIME \<le> ?now")
      case True
      have "pollLoop backend False a e tr = (LoopTimedOut, Suc a, ?now, ?tr2 @ [ShowTimeoutPopup])"
        using lt nr True Answers by (simp add: pollLoop.simps [of backend False a] Let_def)
      with Suc.prems(3) have r: "ex = LoopTimedOut" "a' = Suc a" "e' = ?now"
        "tr' = ?tr2 @ [ShowTimeoutPopup]" by auto
      have to: "timesOutAfter backend a"
        unfolding timesOutAfter_def using lt el True by (intro exI [of _ "Suc a"]) simp
      show ?thesis
        using r to lt True p2 t2 s2
        by (auto simp add: polls_append timeouts_append pollSleeps_append polls_def
            timeouts_def pollSleeps_def)
    next
      case False
      let ?tr3 = "?tr2 @ [Progress (min (30 + of_nat (a + 1) / of_nat maxAttempts * 40) 70)]"
      have "pollLoop backend False a e tr = pollLoop backend False (Suc a) ?now ?tr3"
        using lt nr False Answers by (simp add: pollLoop.simps [of backend False a] Let_def)
      with Suc.prems(3) have rec: "pollLoop backend False (Suc a) ?now ?tr3 = (ex, a', e', tr')"
        by auto
      have n: "n = maxAttempts - Suc a" using Suc.hyps(2) by simp
      have le: "Suc a \<le> maxAttempts" using lt by simp
      note ih = Suc.hyps(1) [OF n le el rec]
      have p3: "polls ?tr3 = Suc (polls tr)" and t3: "timeouts ?tr3 = timeouts tr"
        and s3: "pollSleeps ?tr3 = Suc (pollSleeps tr)"
        by (simp_all add: polls_def timeouts_def pollSleeps_def)
      have h3: "HideLoadingOverlay \<notin> set ?tr3 - set tr" by auto
      have shift: "timesOutAfter backend a \<longleftrightarrow> timesOutAfter backend (Suc a)"
      proof
        assume "timesOutAfter backend a"
        then obtain k x where k: "a < k" "k \<le> maxAttempts" "elapsedAfter backend k = Some x"
          "LOADING_TIMEOUT_TIME \<le> x"
          by (auto simp add: timesOutAfter_def split: option.splits)
        have "k \<noteq> Suc a" using k(3,4) el False by auto
        then show "timesOutAfter backend (Suc a)"
          using k by (auto simp add: timesOutAfter_def intro!: exI [of _ k])
      next
        assume "timesOutAfter backend (Suc a)"
        then show "timesOutAfter backend a"
          by (auto simp add: timesOutAfter_def intro: Suc_lessD)
      qed
      have hide: "HideLoadingOverlay \<notin> set tr' - set tr"
        using ih h3 by auto
      have i1: "(ex = LoopTimedOut) = timesOutAfter backend (Suc a)"
        and i2: "(ex = LoopDone) =
                   (\<not> timesOutAfter backend (Suc a) \<and> elapsedAfter backend maxAttempts \<noteq> None)"
        and i3: "Suc a \<le> a'" and i4: "a' \<le> maxAttempts"
        and i5: "polls tr' = polls ?tr3 + (a' - Suc a) + (if ex = LoopPending then 1 else 0)"
        and i6: "pollSleeps tr' = pollSleeps ?tr3 + (a' - Suc a) + (if ex = LoopPending then 1 else 0)"
        and i7: "timeouts tr' = timeouts ?tr3 + (if ex = LoopTimedOut then 1 else 0)"
        and i8: "ex = LoopDone \<longrightarrow> a' = maxAttempts"
        and i9: "ex = LoopTimedOut \<longrightarrow> LOADING_TIMEOUT_TIME \<le> e'"
        and i10: "ex = LoopPending \<longrightarrow> a' < maxAttempts"
        using ih by blast+
      show ?thesis
      proof (intro conjI)
        show "(ex = LoopTimedOut) = timesOutAfter backend a" using i1 shift by simp
        show "(ex = LoopDone) =
                (\<not> timesOutAfter backend a \<and> elapsedAfter backend maxAttempts \<noteq> None)"
          using i2 shift by simp
        show "a \<le> a'" using i3 by simp
        show "a' \<le> maxAttempts" by (rule i4)
        show "polls tr' = polls tr + (a' - a) + (if ex = LoopPending then 1 else 0)"
          using i5 [unfolded p3] i3 by simp
        show "pollSleeps tr' = pollSleeps tr + (a' - a) + (if ex = LoopPending then 1 else 0)"
          using i6 [unfolded s3] i3 by simp
        show "timeouts tr' = timeouts tr + (if ex = LoopTimedOut then 1 else 0)"
          using i7 [unfolded t3] by simp
        show "HideLoadingOverlay \<notin> set tr' - set tr" by (rule hide)
        show "ex = LoopDone \<longrightarrow> a' = maxAttempts" by (rule i8)
        show "ex = LoopTimedOut \<longrightarrow> LOADING_TIMEOUT_TIME \<le> e'" by (rule i9)
        show "ex = LoopPending \<longrightarrow> a' < maxAttempts" by (rule i10)
      qed
    qed
  qed
qed


lemma elapsedAfter_const:
  "(\<And>i. backend i = Answers h l) \<Longrightarrow> elapsedAfter backend k = Some (l + k * (2000 + l))"
  by (induction k) simp_all

text \<open>
  C3, as stated, fails. Against a backend that never reports readiness and answers every
  health check at once, the sequence polls 60 times, then goes on to the ready steps:
  polling ends after 120 seconds, the sequence ends ready, and the timeout popup is never
  shown.
\<close>

theorem prompt_backend_ends_ready:
  "neverReady promptBackend
   \<and> ending (startLoadingProcess promptBackend True) = EndReady
   \<and> attemptsMade (startLoadingProcess promptBackend True) = 60
   \<and> elapsedMs (startLoadingProcess promptBackend True) = 120000
   \<and> timeouts (events (startLoadingProcess promptBackend True)) = 0"
  by (simp add: neverReady_def startLoadingProcess_def promptBackend_def maxAttempts_def
      LOADING_WARNING_TIME_def LOADING_TIMEOUT_TIME_def pollLoop.simps timeouts_def)

text \<open>
  C3, amended. Against a backend that never reports readiness the sequence makes at most
  60 polls, each after a 2-second sleep, so at most 61 health checks, and shows the
  timeout popup at most once. It ends in exactly one of these ways. When the first check
  never settles, or a poll never settles before the clock has reached 30 minutes at a
  poll, it stays pending for ever, with no popup and no ready step. When the first check
  fails it shows the retry button. When the clock is at 30 minutes or more at the answer
  of one of the 60 polls, it shows the timeout popup, once, and stops. Otherwise it
  completes the ready steps after the 60th poll, and hides the overlay once
  \<^verbatim>\<open>loadSuggestions\<close> has returned.
\<close>

theorem bootstrap_never_ready:
  assumes "neverReady backend"
  shows "ending (startLoadingProcess backend suggestionsSettle) =
           (case backend 0 of
              Stalls \<Rightarrow> EndPending
            | Answers h lat \<Rightarrow>
                if \<not> health_success h then EndError
                else if timesOutAfter backend 0 then EndTimedOut
                else if elapsedAfter backend maxAttempts \<noteq> None then EndReady
                else EndPending)
       \<and> attemptsMade (startLoadingProcess backend suggestionsSettle) \<le> 60
       \<and> polls (events (startLoadingProcess backend suggestionsSettle)) \<le> 61
       \<and> pollSleeps (events (startLoadingProcess backend suggestionsSettle))
           = polls (events (startLoadingProcess backend suggestionsSettle)) - 1
       \<and> timeouts (events (startLoadingProcess backend suggestionsSettle))
           = (if ending (startLoadingProcess backend suggestionsSettle) = EndTimedOut
              then 1 else 0)
       \<and> (ending (startLoadingProcess backend suggestionsSettle) = EndTimedOut \<longrightarrow>
            LOADING_TIMEOUT_TIME \<le> elapsedMs (startLoadingProcess backend suggestionsSettle))
       \<and> (ending (startLoadingProcess backend suggestionsSettle) = EndReady \<longrightarrow>
            attemptsMade (startLoadingProcess backend suggestionsSettle) = 60
            \<and> polls (events (startLoadingProcess backend suggestionsSettle)) = 61)
       \<and> (HideLoadingOverlay \<in> set (events (startLoadingProcess backend suggestionsSettle))
            \<longleftrightarrow> ending (startLoadingProcess backend suggestionsSettle) = EndReady
                \<and> suggestionsSettle)"
proof (cases "backend 0")
  case Stalls
  then show ?thesis
    by (simp add: startLoadingProcess_def polls_def pollSleeps_def timeouts_def)
next
  case (Answers h lat)
  show ?thesis
  proof (cases "health_success h")
    case False
    then show ?thesis
      using Answers
      by (simp add: startLoadingProcess_def polls_def pollSleeps_def timeouts_def)
  next
    case True
    let ?tr = "[Status ''server'' ''active'', Progress 10, HealthCheck,
                Status ''server'' ''completed'', Progress 30, Status ''model'' ''active'']"
    have r0: "\<not> health_ragInitialized h"
      using assms Answers
      by (auto simp add: neverReady_def split: health_call.splits dest: spec [of _ 0])
    have e0: "elapsedAfter backend 0 = Some lat" using Answers by simp
    obtain ex a' e' tr' where loop: "pollLoop backend False 0 lat ?tr = (ex, a', e', tr')"
      by (cases "pollLoop backend False 0 lat ?tr") auto
    note inv = pollLoop_neverReady [OF assms _ e0 loop]
    have i1: "(ex = LoopTimedOut) = timesOutAfter backend 0"
      and i2: "(ex = LoopDone) =
                 (\<not> timesOutAfter backend 0 \<and> elapsedAfter backend maxAttempts \<noteq> None)"
      and i4: "a' \<le> maxAttempts"
      and i5: "polls tr' = polls ?tr + (a' - 0) + (if ex = LoopPending then 1 else 0)"
      and i6: "pollSleeps tr' = pollSleeps ?tr + (a' - 0) + (if ex = LoopPending then 1 else 0)"
      and i7: "timeouts tr' = timeouts ?tr + (if ex = LoopTimedOut then 1 else 0)"
      and i8: "HideLoadingOverlay \<notin> set tr' - set ?tr"
      and i9: "ex = LoopDone \<longrightarrow> a' = maxAttempts"
      and i10: "ex = LoopTimedOut \<longrightarrow> LOADING_TIMEOUT_TIME \<le> e'"
      and i11: "ex = LoopPending \<longrightarrow> a' < maxAttempts"
      using inv by simp_all
    have c: "polls ?tr = 1" "pollSleeps ?tr = 0" "timeouts ?tr = 0"
      by (simp_all add: polls_def pollSleeps_def timeouts_def)
    have nh: "HideLoadingOverlay \<notin> set tr'" using i8 by auto
    note cnt = i5 [unfolded c] i6 [unfolded c] i7 [unfolded c]
    show ?thesis
    proof (cases ex)
      case LoopDone
      then have res: "startLoadingProcess backend suggestionsSettle =
          \<lparr>ending = EndReady, attemptsMade = a', elapsedMs = e',
           events = tr' @
             [Status ''model'' ''completed'', Progress 70,
              Status ''vectorStore'' ''active'', Sleep 500,
              Status ''vectorStore'' ''completed'', Progress 90,
              Status ''ready'' ''active'', Sleep 300,
              Status ''ready'' ''completed'', Progress 100,
              LoadSuggestions] @
             (if suggestionsSettle then [Sleep 500, HideLoadingOverlay] else [])\<rparr>"
        using Answers True r0 loop by (simp add: startLoadingProcess_def Let_def)
      have a60: "a' = 60" using i9 LoopDone by (simp add: maxAttempts_def)
      show ?thesis
        using i1 i2 cnt nh LoopDone a60 Answers True
        by (simp add: res polls_append pollSleeps_append timeouts_append
            polls_def [of "_ # _"] pollSleeps_def [of "_ # _"] timeouts_def [of "_ # _"]
            polls_def [of "[]"] pollSleeps_def [of "[]"] timeouts_def [of "[]"])
    next
      case LoopTimedOut
      then have res: "startLoadingProcess backend suggestionsSettle =
          \<lparr>ending = EndTimedOut, attemptsMade = a', elapsedMs = e', events = tr'\<rparr>"
        using Answers True r0 loop by (simp add: startLoadingProcess_def Let_def)
      show ?thesis
        using i1 i4 i10 cnt nh LoopTimedOut Answers True
        by (simp add: res maxAttempts_def)
    next
      case LoopPending
      then have res: "startLoadingProcess backend suggestionsSettle =
          \<lparr>ending = EndPending, attemptsMade = a', elapsedMs = e', events = tr'\<rparr>"
        using Answers True r0 loop by (simp add: startLoadingProcess_def Let_def)
      have lt: "a' < maxAttempts" using i11 LoopPending by simp
      show ?thesis
        using i1 i2 i4 cnt nh LoopPending Answers True lt
        by (simp add: res maxAttempts_def)
    qed
  qed
qed


lemma elapsedAfter_None:
  "elapsedAfter backend k = None \<Longrightarrow> k \<le> m \<Longrightarrow> elapsedAfter backend m = None"
  using elapsedAfter_mono [of k m backend] by (cases "elapsedAfter backend m") auto

theorem bootstrap_never_ready_witness:
  "neverReady promptBackend
   \<and> ending (startLoadingProcess promptBackend True) = EndReady
   \<and> polls (events (startLoadingProcess promptBackend True)) = 61
   \<and> timeouts (events (startLoadingProcess promptBackend True)) = 0
   \<and> neverReady slowBackend
   \<and> ending (startLoadingProcess slowBackend True) = EndTimedOut
   \<and> timeouts (events (startLoadingProcess slowBackend True)) = 1
   \<and> neverReady stallingBackend
   \<and> ending (startLoadingProcess stallingBackend True) = EndPending
   \<and> timeouts (events (startLoadingProcess stallingBackend True)) = 0"
proof -
  have nr: "neverReady promptBackend" "neverReady slowBackend" "neverReady stallingBackend"
    by (simp_all add: neverReady_def promptBackend_def slowBackend_def stallingBackend_def)
  have ep: "elapsedAfter promptBackend k = Some (0 + k * (2000 + 0))" for k
    by (rule elapsedAfter_const) (simp add: promptBackend_def)
  have es: "elapsedAfter slowBackend k = Some (30000 + k * (2000 + 30000))" for k
    by (rule elapsedAfter_const) (simp add: slowBackend_def)
  have p1: "\<not> timesOutAfter promptBackend 0"
    by (auto simp add: timesOutAfter_def ep maxAttempts_def LOADING_TIMEOUT_TIME_def)
  have p2: "elapsedAfter promptBackend maxAttempts \<noteq> None" by (simp add: ep)
  have s1: "timesOutAfter slowBackend 0"
    unfolding timesOutAfter_def
    by (rule exI [of _ 56]) (simp add: es maxAttempts_def LOADING_TIMEOUT_TIME_def)
  have st3: "elapsedAfter stallingBackend (Suc (Suc (Suc 0))) = None"
    by (simp add: stallingBackend_def)
  have st: "elapsedAfter stallingBackend k = None" if "3 \<le> k" for k
    using elapsedAfter_None [OF st3, of k] that by (simp add: numeral_3_eq_3)
  have t1: "\<not> timesOutAfter stallingBackend 0"
  proof
    assume "timesOutAfter stallingBackend 0"
    then obtain k x where k: "0 < k" "elapsedAfter stallingBackend k = Some x"
      "LOADING_TIMEOUT_TIME \<le> x"
      by (auto simp add: timesOutAfter_def split: option.splits)
    have "k < 3" using st [of k] k(2) by (cases "3 \<le> k") auto
    then have "k = Suc 0 \<or> k = Suc (Suc 0)" using k(1) by auto
    then show False
      using k(2,3) by (auto simp add: stallingBackend_def LOADING_TIMEOUT_TIME_def)
  qed
  have t2: "elapsedAfter stallingBackend maxAttempts = None"
    by (rule st) (simp add: maxAttempts_def)
  show ?thesis
    using bootstrap_never_ready [OF nr(1), of True] bootstrap_never_ready [OF nr(2), of True]
      bootstrap_never_ready [OF nr(3), of True] nr p1 p2 s1 t1 t2
    by (simp add: promptBackend_def slowBackend_def stallingBackend_def)
qed

section \<open>Properties of ApiService.request\<close>

lemma request_times_out:
  "noResponseBefore timeout nb \<Longrightarrow>
     request message_of timeout nb =
       \<lparr>outcome = Settles timeout (Inl (Error ''Request timeout'' (Some 408))), aborted = True\<rparr>"
  by (simp add: request_def noResponseBefore_def Let_def split: net_behaviour.splits)

text \<open>
  C6. The claim: every call waits at most 60 seconds; past that the request is aborted
  and the call yields a timeout error (status 408) instead of hanging. That holds while
  the response has not arrived (\<open>request_times_out\<close>). But the timer is cleared when
  the response's headers arrive, before the body is read: when the headers come after one
  second and the body never completes, the call stays pending for ever and nothing is
  aborted; when the body takes two minutes, the call settles after 121 seconds.
\<close>

theorem request_hangs_on_stalled_body:
  "request message API_CONFIG_timeout (ResponseAt 1000 200 BodyStalls)
     = \<lparr>outcome = Pending, aborted = False\<rparr>
   \<and> request message API_CONFIG_timeout (ResponseAt 1000 200 (BodyParsed 120000 sampleAnswer))
     = \<lparr>outcome = Settles 121000 (Inr sampleAnswer), aborted = False\<rparr>"
  by (simp add: request_def API_CONFIG_timeout_def response_ok_def)

section \<open>Properties of the query function\<close>

lemma js_trim_Nil [simp]: "js_trim [] = []"
  by (simp add: js_trim_def)

lemma js_latin1_examples:
  "js_trim [CHR 0xA0] = []"
  "js_trim (js_toLowerCase (CHR 0xA0 # ''HI'' @ [CHR 0xC9, CHR 0x20])) = ''hi'' @ [CHR 0xE9]"
  "js_toLowerCase [CHR 0xD7, CHR 0xDF] = [CHR 0xD7, CHR 0xDF]"
  by code_simp+

lemma nbsp_query_gets_400:
  "statusCode (handler sampleEnv (sampleEvent [CHR 0xA0]) []) = 400"
  by (simp add: handler_def sampleEvent_def queryRequired_def js_latin1_examples)

lemma handler_invalid_query:
  assumes "httpMethod ev = ''POST''" "bodyReadable ev" "requestQuery ev = None"
  shows "handler env ev cache = queryRequired cache"
proof (cases "body ev")
  case NoBody
  then show ?thesis using assms(1) by (simp add: handler_def)
next
  case MalformedBody
  then show ?thesis using assms(2) by (simp add: bodyReadable_def)
next
  case (JsonBody j)
  then show ?thesis
    using assms
    by (cases j)
       (auto simp add: handler_def bodyReadable_def requestQuery_def js_truthy_def
          split: option.splits json.splits if_splits)
qed

lemma handler_valid_query:
  assumes "httpMethod ev = ''POST''" "requestQuery ev = Some q"
  shows "handler env ev cache = answerQuery env ev cache q"
  using assms
  by (auto simp add: handler_def requestQuery_def js_truthy_def
      split: event_body.splits json.splits option.splits if_splits)

lemma handler_llmCalled:
  assumes "llmCalled (handler env ev cache)"
  shows "\<exists>q. handler env ev cache = answerQuery env ev cache q"
  using assms
  by (auto simp add: handler_def internalError_def queryRequired_def
      split: event_body.splits json.splits option.splits sum.splits if_splits)

lemma answerQuery_rate_limited:
  assumes "llmCalled (answerQuery env ev cache q)" "llm env = LlmRateLimited"
  shows "answerQuery env ev cache q =
           \<lparr>statusCode = 429,
            responseBody =
              ErrorBody ''Rate limit exceeded. Please try again later or add your own API key.''
                True None,
            cacheAfter = cache, llmCalled = True\<rparr>"
  using assms
  by (auto simp add: answerQuery_def Let_def split: option.splits if_splits)

lemma handler_unreadable_body:
  assumes "httpMethod ev = ''POST''" "\<not> bodyReadable ev"
  shows "\<exists>e. handler env ev cache = internalError e cache False"
  using assms
  by (cases "body ev") (auto simp add: handler_def bodyReadable_def)

text \<open>
  C7, as stated, fails. A POST whose body is not JSON, and a POST whose body is the JSON
  \<^verbatim>\<open>null\<close>, have no \<^verbatim>\<open>query\<close> field, and both are answered with status 500: the parse
  or the read of \<^verbatim>\<open>body.query\<close> throws, and the \<^verbatim>\<open>catch\<close> block answers.
\<close>

theorem unreadable_body_gets_500:
  "requestQuery \<lparr>httpMethod = ''POST'', body = MalformedBody,
                  headers = [''x-groq-api-key'' \<mapsto> ''gsk_abc'']\<rparr> = None
   \<and> statusCode (handler sampleEnv
        \<lparr>httpMethod = ''POST'', body = MalformedBody,
         headers = [''x-groq-api-key'' \<mapsto> ''gsk_abc'']\<rparr> []) = 500
   \<and> requestQuery \<lparr>httpMethod = ''POST'', body = JsonBody JNull,
                  headers = [''x-groq-api-key'' \<mapsto> ''gsk_abc'']\<rparr> = None
   \<and> statusCode (handler sampleEnv
        \<lparr>httpMethod = ''POST'', body = JsonBody JNull,
         headers = [''x-groq-api-key'' \<mapsto> ''gsk_abc'']\<rparr> []) = 500"
  by (simp add: requestQuery_def handler_def internalError_def)

text \<open>
  C7, amended. For every POST the checks run in this order. When the body is not JSON
  or is the JSON \<^verbatim>\<open>null\<close>, the status is 500. When the body is absent or is JSON other
  than \<^verbatim>\<open>null\<close>, and has no \<^verbatim>\<open>query\<close> field, or one that is not a string or is empty
  after trimming, the status is 400. When the query passed that check and neither the
  \<^verbatim>\<open>x-groq-api-key\<close> header nor the environment gives an API key, the status is 401.
  When the LLM API was called and reported rate limiting, the status is 429. Each of
  these responses has an error body, and the first three are given without calling the
  LLM API.
\<close>

theorem query_function_error_statuses:
  assumes "httpMethod ev = ''POST''"
  shows "(\<not> bodyReadable ev \<longrightarrow>
            statusCode (handler env ev cache) = 500
            \<and> isErrorBody (responseBody (handler env ev cache))
            \<and> \<not> llmCalled (handler env ev cache))
       \<and> (bodyReadable ev \<and> requestQuery ev = None \<longrightarrow>
            statusCode (handler env ev cache) = 400
            \<and> isErrorBody (responseBody (handler env ev cache))
            \<and> \<not> llmCalled (handler env ev cache))
       \<and> (requestQuery ev \<noteq> None \<and> availableApiKey env ev = None \<longrightarrow>
            statusCode (handler env ev cache) = 401
            \<and> isErrorBody (responseBody (handler env ev cache))
            \<and> \<not> llmCalled (handler env ev cache))
       \<and> (llmCalled (handler env ev cache) \<and> llm env = LlmRateLimited \<longrightarrow>
            statusCode (handler env ev cache) = 429
            \<and> isErrorBody (responseBody (handler env ev cache)))"
proof (intro conjI impI)
  assume "\<not> bodyReadable ev"
  then obtain e where "handler env ev cache = internalError e cache False"
    using assms handler_unreadable_body by blast
  then show "statusCode (handler env ev cache) = 500"
    and "isErrorBody (responseBody (handler env ev cache))"
    and "\<not> llmCalled (handler env ev cache)"
    by (simp_all add: internalError_def)
next
  assume a: "bodyReadable ev \<and> requestQuery ev = None"
  then have "handler env ev cache = queryRequired cache"
    using assms handler_invalid_query by blast
  then show "statusCode (handler env ev cache) = 400"
    and "isErrorBody (responseBody (handler env ev cache))"
    and "\<not> llmCalled (handler env ev cache)"
    by (simp_all add: queryRequired_def)
next
  assume a: "requestQuery ev \<noteq> None \<and> availableApiKey env ev = None"
  then obtain q where "requestQuery ev = Some q" by auto
  then have "handler env ev cache = answerQuery env ev cache q"
    using assms handler_valid_query by blast
  then show "statusCode (handler env ev cache) = 401"
    and "isErrorBody (responseBody (handler env ev cache))"
    and "\<not> llmCalled (handler env ev cache)"
    using a by (simp_all add: answerQuery_def)
next
  assume a: "llmCalled (handler env ev cache) \<and> llm env = LlmRateLimited"
  then obtain q where q: "handler env ev cache = answerQuery env ev cache q"
    using handler_llmCalled by blast
  then show "statusCode (handler env ev cache) = 429"
    and "isErrorBody (responseBody (handler env ev cache))"
    using a answerQuery_rate_limited [of env ev cache q] by simp_all
qed

theorem query_function_error_statuses_witness:
  "statusCode (handler sampleEnv
      \<lparr>httpMethod = ''POST'', body = MalformedBody,
       headers = [''x-groq-api-key'' \<mapsto> ''gsk_abc'']\<rparr> []) = 500
   \<and> statusCode (handler sampleEnv
      \<lparr>httpMethod = ''POST'', body = JsonBody (JObj [(''query'', JStr ''   '')]),
       headers = [''x-groq-api-key'' \<mapsto> ''gsk_abc'']\<rparr> []) = 400
   \<and> statusCode (handler sampleEnv
      \<lparr>httpMethod = ''POST'', body = JsonBody (JObj [(''query'', JNum 5)]),
       headers = [''x-groq-api-key'' \<mapsto> ''gsk_abc'']\<rparr> []) = 400
   \<and> statusCode (handler sampleEnv
      \<lparr>httpMethod = ''POST'', body = NoBody,
       headers = [''x-groq-api-key'' \<mapsto> ''gsk_abc'']\<rparr> []) = 400
   \<and> statusCode (handler sampleEnv
      \<lparr>httpMethod = ''POST'', body = JsonBody (JObj [(''query'', JStr ''hi'')]),
       headers = Map.empty\<rparr> []) = 401
   \<and> statusCode (handler (sampleEnv\<lparr>llm := LlmRateLimited\<rparr>) (sampleEvent ''hi'') []) = 429"
proof -
  have ws: "js_trim ''   '' = []" "js_trim ''hi'' = ''hi''"
    by (simp_all add: js_trim_def js_isWhiteSpace_def)
  have called: "llmCalled (handler (sampleEnv\<lparr>llm := LlmRateLimited\<rparr>) (sampleEvent ''hi'') [])"
    by (simp add: handler_def answerQuery_def availableApiKey_def sampleEnv_def sampleEvent_def
        js_truthy_def ws cache_get_def Let_def)
  show ?thesis
    using query_function_error_statuses [of
        "\<lparr>httpMethod = ''POST'', body = MalformedBody,
          headers = [''x-groq-api-key'' \<mapsto> ''gsk_abc'']\<rparr>" sampleEnv "[]"]
      query_function_error_statuses [of
        "\<lparr>httpMethod = ''POST'', body = JsonBody (JObj [(''query'', JStr ''   '')]),
          headers = [''x-groq-api-key'' \<mapsto> ''gsk_abc'']\<rparr>" sampleEnv "[]"]
      query_function_error_statuses [of
        "\<lparr>httpMethod = ''POST'', body = JsonBody (JObj [(''query'', JNum 5)]),
          headers = [''x-groq-api-key'' \<mapsto> ''gsk_abc'']\<rparr>" sampleEnv "[]"]
      query_function_error_statuses [of
        "\<lparr>httpMethod = ''POST'', body = NoBody,
          headers = [''x-groq-api-key'' \<mapsto> ''gsk_abc'']\<rparr>" sampleEnv "[]"]
      query_function_error_statuses [of
        "\<lparr>httpMethod = ''POST'', body = JsonBody (JObj [(''query'', JStr ''hi'')]),
          headers = Map.empty\<rparr>" sampleEnv "[]"]
      query_function_error_statuses [of "sampleEvent ''hi''"
        "sampleEnv\<lparr>llm := LlmRateLimited\<rparr>" "[]"]
      called
    by (simp add: bodyReadable_def requestQuery_def availableApiKey_def sampleEnv_def
        sampleEvent_def ws)
qed

text \<open>
  C10. Two queries that are equal after lower-casing and trimming have the same cache
  key. So when the cache holds an entry for one of them that is younger than
  \<open>CACHE_TTL\<close> (one hour), a POST with the other (a query that passes the check, with
  an API key available) is answered with status 200, the cached response,
  \<^verbatim>\<open>cached: true\<close> and \<^verbatim>\<open>response_time: 0\<close>, without calling the LLM API and without
  changing the cache.
\<close>

theorem equal_normalised_queries_share_cache:
  assumes "js_trim (js_toLowerCase q1) = js_trim (js_toLowerCase q2)"
    and "cache_get cache (getCacheKey q1) = Some c"
    and "nowCheck env - cache_timestamp c < CACHE_TTL"
    and "httpMethod ev = ''POST''"
    and "requestQuery ev = Some q2"
    and "availableApiKey env ev \<noteq> None"
  shows "getCacheKey q1 = getCacheKey q2
       \<and> handler env ev cache =
           \<lparr>statusCode = 200, responseBody = SuccessBody (cache_response c) True 0 None,
            cacheAfter = cache, llmCalled = False\<rparr>"
proof -
  have k: "getCacheKey q1 = getCacheKey q2"
    using assms(1) by (simp add: getCacheKey_def)
  have "handler env ev cache = answerQuery env ev cache q2"
    using assms(4,5) by (rule handler_valid_query)
  then show ?thesis
    using k assms(2,3,6) by (auto simp add: answerQuery_def Let_def)
qed

theorem equal_normalised_queries_share_cache_witness:
  "js_trim (js_toLowerCase ''  What is VCET? '') = js_trim (js_toLowerCase ''what IS vcet?'')
   \<and> statusCode (handler sampleEnv (sampleEvent ''  What is VCET? '') []) = 200
   \<and> llmCalled (handler sampleEnv (sampleEvent ''  What is VCET? '') [])
   \<and> handler (sampleEnv\<lparr>nowCheck := 2200 + 3599999, llm := LlmRateLimited\<rparr>)
        (sampleEvent ''what IS vcet?'')
        (cacheAfter (handler sampleEnv (sampleEvent ''  What is VCET? '') []))
     = \<lparr>statusCode = 200,
        responseBody = SuccessBody ''VCET is an engineering college.'' True 0 None,
        cacheAfter = cacheAfter (handler sampleEnv (sampleEvent ''  What is VCET? '') []),
        llmCalled = False\<rparr>"
proof -
  have n1: "js_trim (js_toLowerCase ''  What is VCET? '') = ''what is vcet?''"
    and n2: "js_trim (js_toLowerCase ''what IS vcet?'') = ''what is vcet?''"
    by code_simp+
  have t1: "js_trim ''  What is VCET? '' \<noteq> []" and t2: "js_trim ''what IS vcet?'' \<noteq> []"
    by code_simp+
  have first: "handler sampleEnv (sampleEvent ''  What is VCET? '') [] =
      \<lparr>statusCode = 200,
       responseBody = SuccessBody ''VCET is an engineering college.'' False (6 / 5)
         (Some ''llama-3.3-70b-versatile''),
       cacheAfter = [(''query_what is vcet?'',
         \<lparr>cache_response = ''VCET is an engineering college.'', cache_timestamp = 2200\<rparr>)],
       llmCalled = True\<rparr>"
    using t1
    by (simp add: handler_def answerQuery_def availableApiKey_def sampleEnv_def sampleEvent_def
        js_truthy_def cache_get_def Let_def assistantMessage_def getCacheKey_def n1)
  have h1: "js_trim (js_toLowerCase ''  What is VCET? '') = js_trim (js_toLowerCase ''what IS vcet?'')"
    by (simp add: n1 n2)
  have h2: "cache_get (cacheAfter (handler sampleEnv (sampleEvent ''  What is VCET? '') []))
              (getCacheKey ''  What is VCET? '')
            = Some \<lparr>cache_response = ''VCET is an engineering college.'', cache_timestamp = 2200\<rparr>"
    by (simp add: first cache_get_def getCacheKey_def n1)
  have h3: "nowCheck (sampleEnv\<lparr>nowCheck := 2200 + 3599999, llm := LlmRateLimited\<rparr>)
              - cache_timestamp
                  \<lparr>cache_response = ''VCET is an engineering college.'', cache_timestamp = 2200\<rparr>
            < CACHE_TTL"
    by (simp add: CACHE_TTL_def)
  have h4: "httpMethod (sampleEvent ''what IS vcet?'') = ''POST''"
    by (simp add: sampleEvent_def)
  have h5: "requestQuery (sampleEvent ''what IS vcet?'') = Some ''what IS vcet?''"
    using t2 by (simp add: requestQuery_def sampleEvent_def)
  have h6: "availableApiKey (sampleEnv\<lparr>nowCheck := 2200 + 3599999, llm := LlmRateLimited\<rparr>)
              (sampleEvent ''what IS vcet?'') \<noteq> None"
    by (simp add: availableApiKey_def sampleEvent_def js_truthy_def)
  show ?thesis
    using equal_normalised_queries_share_cache [OF h1 h2 h3 h4 h5 h6] h1
    by (simp add: first)
qed

end
